theory Spec2Isabelle
  imports Main
begin

section \<open>The notebooks as data\<close>

text \<open>
  The repository is two Jupyter notebooks: \<open>Reading-data.ipynb\<close> and the photutils notebook
  (\<open>src/unnamed/part_000\<close>). Their code cells are Python with a few IPython lines.
  A cell is modelled as the list of its statements, a statement and an expression as
  values of datatypes that follow Python's abstract grammar (module \<open>ast\<close>), with
  every statement and expression form of the language present, also the ones the
  notebooks never use, so that what a cell does not contain is something to compute
  and not a matter of the type. Comments and markdown cells are not code and are left
  out. A float literal keeps its source text; a string literal is its UTF-8 bytes.
\<close>

datatype literal = CInt int | CFloat string | CStr string | CBool bool | CNone

datatype binop = BAdd | BSub | BMult | BDiv | BFloorDiv | BMod | BPow | BMatMult
  | BLShift | BRShift | BBitOr | BBitXor | BBitAnd

datatype unaryop = UInvert | UNot | UAdd | USub

datatype cmpop = CmpEq | CmpNotEq | CmpLt | CmpLtE | CmpGt | CmpGtE
  | CmpIs | CmpIsNot | CmpIn | CmpNotIn

datatype boolop = BoolAnd | BoolOr

datatype compkind = ListComp | SetComp | DictComp | GeneratorExp

datatype expr =
    EConst literal
  | EName string
  | EAttribute expr string
  | ESubscript expr expr
  | ESlice "expr option" "expr option" "expr option"
  | ECall expr "expr list" "(string \<times> expr) list"
  | EBinOp expr binop expr
  | EUnaryOp unaryop expr
  | ECompare expr "(cmpop \<times> expr) list"
  | EBoolOp boolop "expr list"
  | ETuple "expr list"
  | EList "expr list"
  | EDict "(expr \<times> expr) list"
  | ESet "expr list"
  | EStarred expr
  | EIfExp expr expr expr
  | ELambda "string list" expr
  | EComp compkind "expr list" "(expr \<times> expr \<times> expr list) list"
  | EAwait expr
  | EYield "expr option"
  | EYieldFrom expr

datatype stmt =
    SImport "(string \<times> string option) list"
  | SImportFrom string "(string \<times> string option) list"
  | SAssign "expr list" expr
  | SAugAssign expr binop expr
  | SExpr expr
  | SDelete "expr list"
  | SAssert expr
  | SRaise "expr option"
  | SReturn "expr option"
  | SPass | SBreak | SContinue
  | SGlobal "string list"
  | SNonlocal "string list"
  | SIf expr "stmt list" "stmt list"
  | SFor expr expr "stmt list" "stmt list"
  | SWhile expr "stmt list" "stmt list"
  | SWith "(expr \<times> expr option) list" "stmt list"
  | STry "stmt list" "(expr option \<times> stmt list) list" "stmt list" "stmt list"
  | SFunctionDef string "string list" "stmt list"
  | SClassDef string "expr list" "stmt list"
  | SAsyncFunctionDef string "string list" "stmt list"
  | SAsyncFor expr expr "stmt list" "stmt list"
  | SAsyncWith "(expr \<times> expr option) list" "stmt list"
  | SMagic string string
  | SShell string
  | SHelp expr

text \<open>
  IPython's own lines are statements of their own: a line magic (\<open>%matplotlib inline\<close>),
  a shell escape (\<open>!ls -l ...\<close>) and a help query (\<open>Table.read?\<close>).
\<close>

type_synonym cell = "stmt list"

type_synonym notebook = "cell list"

subsection \<open>The code cells of Reading-data.ipynb and of the photutils notebook\<close>

(* pydata2017-astropy/3-reading-manipulating-data/Reading-data.ipynb, line 23:
     # Imports we'll need throughout the tutorial:
     import astropy.units as u
     import numpy as np
     import matplotlib as mpl
     import matplotlib.pyplot as plt
     %matplotlib inline
     
     from astropy.table import Table, QTable
     from astropy.io import ascii, fits
*)
definition reading_data_L23 :: cell where
  "reading_data_L23 =
    [SImport [(''astropy.units'', Some ''u'')],
     SImport [(''numpy'', Some ''np'')],
     SImport [(''matplotlib'', Some ''mpl'')],
     SImport [(''matplotlib.pyplot'', Some ''plt'')],
     SMagic ''matplotlib'' ''inline'',
     SImportFrom ''astropy.table'' [(''Table'', None), (''QTable'', None)],
     SImportFrom ''astropy.io'' [(''ascii'', None), (''fits'', None)]]"

(* pydata2017-astropy/3-reading-manipulating-data/Reading-data.ipynb, line 86:
     tbl = Table()
     tbl['name'] = ['Graham Chapman', 'John Cleese', 'Terry Gilliam', 
                    'Eric Idle', 'Terry Jones', 'Michael Palin']
*)
definition reading_data_L86 :: cell where
  "reading_data_L86 =
    [SAssign [EName ''tbl''] (ECall (EName ''Table'') [] []),
     SAssign [ESubscript (EName ''tbl'') (EConst (CStr ''name''))]
       (EList
          [EConst (CStr ''Graham Chapman''), EConst (CStr ''John Cleese''),
           EConst (CStr ''Terry Gilliam''), EConst (CStr ''Eric Idle''),
           EConst (CStr ''Terry Jones''), EConst (CStr ''Michael Palin'')])]"

(* pydata2017-astropy/3-reading-manipulating-data/Reading-data.ipynb, line 106:
     tbl['age'] = [np.nan, 78, 77, 74, 75, 74]
     
     # whereas, this would fail because it isn't the same length as the table:
     # tbl['age'] = [77, 77]
*)
definition reading_data_L106 :: cell where
  "reading_data_L106 =
    [SAssign [ESubscript (EName ''tbl'') (EConst (CStr ''age''))]
       (EList
          [EAttribute (EName ''np'') ''nan'', EConst (CInt 78), EConst (CInt 77),
           EConst (CInt 74), EConst (CInt 75), EConst (CInt 74)])]"

(* pydata2017-astropy/3-reading-manipulating-data/Reading-data.ipynb, line 127:
     tbl
*)
definition reading_data_L127 :: cell where
  "reading_data_L127 =
    [SExpr (EName ''tbl'')]"

(* pydata2017-astropy/3-reading-manipulating-data/Reading-data.ipynb, line 143:
     print(tbl)
*)
definition reading_data_L143 :: cell where
  "reading_data_L143 =
    [SExpr (ECall (EName ''print'') [EName ''tbl''] [])]"

(* pydata2017-astropy/3-reading-manipulating-data/Reading-data.ipynb, line 159:
     tbl.colnames
*)
definition reading_data_L159 :: cell where
  "reading_data_L159 =
    [SExpr (EAttribute (EName ''tbl'') ''colnames'')]"

(* pydata2017-astropy/3-reading-manipulating-data/Reading-data.ipynb, line 168:
     tbl.dtype
*)
definition reading_data_L168 :: cell where
  "reading_data_L168 =
    [SExpr (EAttribute (EName ''tbl'') ''dtype'')]"

(* pydata2017-astropy/3-reading-manipulating-data/Reading-data.ipynb, line 184:
     tbl.show_in_notebook()
*)
definition reading_data_L184 :: cell where
  "reading_data_L184 =
    [SExpr (ECall (EAttribute (EName ''tbl'') ''show_in_notebook'') [] [])]"

(* pydata2017-astropy/3-reading-manipulating-data/Reading-data.ipynb, line 202:
     tbl['name']  # access entire column
*)
definition reading_data_L202 :: cell where
  "reading_data_L202 =
    [SExpr (ESubscript (EName ''tbl'') (EConst (CStr ''name'')))]"

(* pydata2017-astropy/3-reading-manipulating-data/Reading-data.ipynb, line 211:
     tbl['name'][1] # row index 1 of column
*)
definition reading_data_L211 :: cell where
  "reading_data_L211 =
    [SExpr (ESubscript (ESubscript (EName ''tbl'') (EConst (CStr ''name''))) (EConst (CInt 1)))]"

(* pydata2017-astropy/3-reading-manipulating-data/Reading-data.ipynb, line 220:
     tbl[1]  # row object for row index 1
*)
definition reading_data_L220 :: cell where
  "reading_data_L220 =
    [SExpr (ESubscript (EName ''tbl'') (EConst (CInt 1)))]"

(* pydata2017-astropy/3-reading-manipulating-data/Reading-data.ipynb, line 229:
     tbl[1]['name']  # name column of row index 1
*)
definition reading_data_L229 :: cell where
  "reading_data_L229 =
    [SExpr (ESubscript (ESubscript (EName ''tbl'') (EConst (CInt 1))) (EConst (CStr ''name'')))]"

(* pydata2017-astropy/3-reading-manipulating-data/Reading-data.ipynb, line 238:
     tbl[1:3]  # select a range of rows and return a new table
*)
definition reading_data_L238 :: cell where
  "reading_data_L238 =
    [SExpr
       (ESubscript (EName ''tbl'')
          (ESlice (Some (EConst (CInt 1))) (Some (EConst (CInt 3))) None))]"

(* pydata2017-astropy/3-reading-manipulating-data/Reading-data.ipynb, line 247:
     tbl[[1, 3]] # select specific row indices and return a new table
*)
definition reading_data_L247 :: cell where
  "reading_data_L247 =
    [SExpr (ESubscript (EName ''tbl'') (EList [EConst (CInt 1), EConst (CInt 3)]))]"

(* pydata2017-astropy/3-reading-manipulating-data/Reading-data.ipynb, line 256:
     tbl['name', 'age'] # access a subset of columns
*)
definition reading_data_L256 :: cell where
  "reading_data_L256 =
    [SExpr (ESubscript (EName ''tbl'') (ETuple [EConst (CStr ''name''), EConst (CStr ''age'')]))]"

(* pydata2017-astropy/3-reading-manipulating-data/Reading-data.ipynb, line 274:
     mask = (tbl['age'] < 75) & np.isfinite(tbl['age'])
     tbl[mask]  # Create a new table with just the rows where the mask is True
*)
definition reading_data_L274 :: cell where
  "reading_data_L274 =
    [SAssign [EName ''mask'']
       (EBinOp
          (ECompare (ESubscript (EName ''tbl'') (EConst (CStr ''age'')))
             [(CmpLt, EConst (CInt 75))])
          BBitAnd
          (ECall (EAttribute (EName ''np'') ''isfinite'')
             [ESubscript (EName ''tbl'') (EConst (CStr ''age''))]
             [])),
     SExpr (ESubscript (EName ''tbl'') (EName ''mask''))]"

(* pydata2017-astropy/3-reading-manipulating-data/Reading-data.ipynb, line 297:
     tbl['british'] = [True, True, False, True, True, True]
*)
definition reading_data_L297 :: cell where
  "reading_data_L297 =
    [SAssign [ESubscript (EName ''tbl'') (EConst (CStr ''british''))]
       (EList
          [EConst (CBool True), EConst (CBool True), EConst (CBool False), EConst (CBool True),
           EConst (CBool True), EConst (CBool True)])]"

(* pydata2017-astropy/3-reading-manipulating-data/Reading-data.ipynb, line 306:
     tbl.add_row(('Eddie Izzard', 55, True))  # add a new row to the end
     tbl
*)
definition reading_data_L306 :: cell where
  "reading_data_L306 =
    [SExpr
       (ECall (EAttribute (EName ''tbl'') ''add_row'')
          [ETuple [EConst (CStr ''Eddie Izzard''), EConst (CInt 55), EConst (CBool True)]]
          []),
     SExpr (EName ''tbl'')]"

(* pydata2017-astropy/3-reading-manipulating-data/Reading-data.ipynb, line 323:
     tbl['age'].format = '%.0f'
     tbl
*)
definition reading_data_L323 :: cell where
  "reading_data_L323 =
    [SAssign [EAttribute (ESubscript (EName ''tbl'') (EConst (CStr ''age''))) ''format'']
       (EConst (CStr ''%.0f'')),
     SExpr (EName ''tbl'')]"

(* pydata2017-astropy/3-reading-manipulating-data/Reading-data.ipynb, line 344:
     np.array(tbl)
*)
definition reading_data_L344 :: cell where
  "reading_data_L344 =
    [SExpr (ECall (EAttribute (EName ''np'') ''array'') [EName ''tbl''] [])]"

(* pydata2017-astropy/3-reading-manipulating-data/Reading-data.ipynb, line 362:
     tbl['age'].data
*)
definition reading_data_L362 :: cell where
  "reading_data_L362 =
    [SExpr (EAttribute (ESubscript (EName ''tbl'') (EConst (CStr ''age''))) ''data'')]"

(* pydata2017-astropy/3-reading-manipulating-data/Reading-data.ipynb, line 378:
     np.array(tbl['age'])
*)
definition reading_data_L378 :: cell where
  "reading_data_L378 =
    [SExpr
       (ECall (EAttribute (EName ''np'') ''array'')
          [ESubscript (EName ''tbl'') (EConst (CStr ''age''))]
          [])]"

(* pydata2017-astropy/3-reading-manipulating-data/Reading-data.ipynb, line 398:
     !ls -l example_table_data*
*)
definition reading_data_L398 :: cell where
  "reading_data_L398 =
    [SShell ''ls -l example_table_data*'']"

(* pydata2017-astropy/3-reading-manipulating-data/Reading-data.ipynb, line 407:
     tbl1 = Table.read('data/example_table_data.fits')
     tbl1
*)
definition reading_data_L407 :: cell where
  "reading_data_L407 =
    [SAssign [EName ''tbl1'']
       (ECall (EAttribute (EName ''Table'') ''read'')
          [EConst (CStr ''data/example_table_data.fits'')]
          []),
     SExpr (EName ''tbl1'')]"

(* pydata2017-astropy/3-reading-manipulating-data/Reading-data.ipynb, line 424:
     !head -n 8 data/example_table_data.csv
*)
definition reading_data_L424 :: cell where
  "reading_data_L424 =
    [SShell ''head -n 8 data/example_table_data.csv'']"

(* pydata2017-astropy/3-reading-manipulating-data/Reading-data.ipynb, line 435:
     tbl2 = Table.read('data/example_table_data.csv')
*)
definition reading_data_L435 :: cell where
  "reading_data_L435 =
    [SAssign [EName ''tbl2'']
       (ECall (EAttribute (EName ''Table'') ''read'')
          [EConst (CStr ''data/example_table_data.csv'')]
          [])]"

(* pydata2017-astropy/3-reading-manipulating-data/Reading-data.ipynb, line 451:
     !head -n 8 data/example_table_data.tex
*)
definition reading_data_L451 :: cell where
  "reading_data_L451 =
    [SShell ''head -n 8 data/example_table_data.tex'']"

(* pydata2017-astropy/3-reading-manipulating-data/Reading-data.ipynb, line 462:
     tbl3 = Table.read('data/example_table_data.tex', format='ascii.aastex')
*)
definition reading_data_L462 :: cell where
  "reading_data_L462 =
    [SAssign [EName ''tbl3'']
       (ECall (EAttribute (EName ''Table'') ''read'')
          [EConst (CStr ''data/example_table_data.tex'')]
          [(''format'', EConst (CStr ''ascii.aastex''))])]"

(* pydata2017-astropy/3-reading-manipulating-data/Reading-data.ipynb, line 471:
     !head -n 8 data/example_table_data.txt
*)
definition reading_data_L471 :: cell where
  "reading_data_L471 =
    [SShell ''head -n 8 data/example_table_data.txt'']"

(* pydata2017-astropy/3-reading-manipulating-data/Reading-data.ipynb, line 482:
     tbl4 = Table.read('data/example_table_data.txt', format='ascii', delimiter='|')
*)
definition reading_data_L482 :: cell where
  "reading_data_L482 =
    [SAssign [EName ''tbl4'']
       (ECall (EAttribute (EName ''Table'') ''read'')
          [EConst (CStr ''data/example_table_data.txt'')]
          [(''format'', EConst (CStr ''ascii'')), (''delimiter'', EConst (CStr ''|''))])]"

(* pydata2017-astropy/3-reading-manipulating-data/Reading-data.ipynb, line 500:
     Table.read?
*)
definition reading_data_L500 :: cell where
  "reading_data_L500 =
    [SHelp (EAttribute (EName ''Table'') ''read'')]"

(* pydata2017-astropy/3-reading-manipulating-data/Reading-data.ipynb, line 524:
     tbl1.write('test.fits', overwrite=True)
*)
definition reading_data_L524 :: cell where
  "reading_data_L524 =
    [SExpr
       (ECall (EAttribute (EName ''tbl1'') ''write'') [EConst (CStr ''test.fits'')]
          [(''overwrite'', EConst (CBool True))])]"

(* pydata2017-astropy/3-reading-manipulating-data/Reading-data.ipynb, line 540:
     # VO table
     tbl1.write('test.vot', format='votable', overwrite=True)
     !head -n 30 test.vot
*)
definition reading_data_L540 :: cell where
  "reading_data_L540 =
    [SExpr
       (ECall (EAttribute (EName ''tbl1'') ''write'') [EConst (CStr ''test.vot'')]
          [(''format'', EConst (CStr ''votable'')), (''overwrite'', EConst (CBool True))]),
     SShell ''head -n 30 test.vot'']"

(* pydata2017-astropy/3-reading-manipulating-data/Reading-data.ipynb, line 553:
     tbl1.write('test.dat', format='ascii')
*)
definition reading_data_L553 :: cell where
  "reading_data_L553 =
    [SExpr
       (ECall (EAttribute (EName ''tbl1'') ''write'') [EConst (CStr ''test.dat'')]
          [(''format'', EConst (CStr ''ascii''))])]"

(* pydata2017-astropy/3-reading-manipulating-data/Reading-data.ipynb, line 564:
     tbl1.write('test.csv', format='ascii.csv')
*)
definition reading_data_L564 :: cell where
  "reading_data_L564 =
    [SExpr
       (ECall (EAttribute (EName ''tbl1'') ''write'') [EConst (CStr ''test.csv'')]
          [(''format'', EConst (CStr ''ascii.csv''))])]"

(* pydata2017-astropy/3-reading-manipulating-data/Reading-data.ipynb, line 575:
     tbl1.write('test.ipac', format='ascii')
*)
definition reading_data_L575 :: cell where
  "reading_data_L575 =
    [SExpr
       (ECall (EAttribute (EName ''tbl1'') ''write'') [EConst (CStr ''test.ipac'')]
          [(''format'', EConst (CStr ''ascii''))])]"

(* pydata2017-astropy/3-reading-manipulating-data/Reading-data.ipynb, line 593:
     tbl1.write('test.ecsv', format='ascii.ecsv')
*)
definition reading_data_L593 :: cell where
  "reading_data_L593 =
    [SExpr
       (ECall (EAttribute (EName ''tbl1'') ''write'') [EConst (CStr ''test.ecsv'')]
          [(''format'', EConst (CStr ''ascii.ecsv''))])]"

(* pydata2017-astropy/3-reading-manipulating-data/Reading-data.ipynb, line 611:
     from astroquery.sdss import SDSS
     import astropy.coordinates as coord
*)
definition reading_data_L611 :: cell where
  "reading_data_L611 =
    [SImportFrom ''astroquery.sdss'' [(''SDSS'', None)],
     SImport [(''astropy.coordinates'', Some ''coord'')]]"

(* pydata2017-astropy/3-reading-manipulating-data/Reading-data.ipynb, line 621:
     sc = coord.SkyCoord.from_name('HD 69497')
     sc
*)
definition reading_data_L621 :: cell where
  "reading_data_L621 =
    [SAssign [EName ''sc'']
       (ECall (EAttribute (EAttribute (EName ''coord'') ''SkyCoord'') ''from_name'')
          [EConst (CStr ''HD 69497'')]
          []),
     SExpr (EName ''sc'')]"

(* pydata2017-astropy/3-reading-manipulating-data/Reading-data.ipynb, line 633:
     sdss_data = SDSS.query_region(sc, radius=0.5*u.deg, spectro=True)
*)
definition reading_data_L633 :: cell where
  "reading_data_L633 =
    [SAssign [EName ''sdss_data'']
       (ECall (EAttribute (EName ''SDSS'') ''query_region'') [EName ''sc'']
          [(''radius'', EBinOp (EConst (CFloat ''0.5'')) BMult
              (EAttribute (EName ''u'') ''deg'')),
           (''spectro'', EConst (CBool True))])]"

(* pydata2017-astropy/3-reading-manipulating-data/Reading-data.ipynb, line 642:
     sdss_data
*)
definition reading_data_L642 :: cell where
  "reading_data_L642 =
    [SExpr (EName ''sdss_data'')]"

(* pydata2017-astropy/3-reading-manipulating-data/Reading-data.ipynb, line 653:
     sdss_data.write('SDSS_star.fits', overwrite=True)
*)
definition reading_data_L653 :: cell where
  "reading_data_L653 =
    [SExpr
       (ECall (EAttribute (EName ''sdss_data'') ''write'') [EConst (CStr ''SDSS_star.fits'')]
          [(''overwrite'', EConst (CBool True))])]"

(* pydata2017-astropy/3-reading-manipulating-data/Reading-data.ipynb, line 675:
     tbl = Table()
     tbl['name'] = ['Graham Chapman', 'John Cleese', 'Terry Gilliam', 
                    'Eric Idle', 'Terry Jones', 'Michael Palin']
     tbl['age'] = [np.nan, 78, 77, 74, 75, 74] * u.year
     tbl
*)
definition reading_data_L675 :: cell where
  "reading_data_L675 =
    [SAssign [EName ''tbl''] (ECall (EName ''Table'') [] []),
     SAssign [ESubscript (EName ''tbl'') (EConst (CStr ''name''))]
       (EList
          [EConst (CStr ''Graham Chapman''), EConst (CStr ''John Cleese''),
           EConst (CStr ''Terry Gilliam''), EConst (CStr ''Eric Idle''),
           EConst (CStr ''Terry Jones''), EConst (CStr ''Michael Palin'')]),
     SAssign [ESubscript (EName ''tbl'') (EConst (CStr ''age''))]
       (EBinOp
          (EList
             [EAttribute (EName ''np'') ''nan'', EConst (CInt 78), EConst (CInt 77),
              EConst (CInt 74), EConst (CInt 75), EConst (CInt 74)])
          BMult
          (EAttribute (EName ''u'') ''year'')),
     SExpr (EName ''tbl'')]"

(* pydata2017-astropy/3-reading-manipulating-data/Reading-data.ipynb, line 697:
     (tbl['age'] ** 2).unit
*)
definition reading_data_L697 :: cell where
  "reading_data_L697 =
    [SExpr
       (EAttribute
          (EBinOp (ESubscript (EName ''tbl'') (EConst (CStr ''age''))) BPow (EConst (CInt 2)))
          ''unit'')]"

(* pydata2017-astropy/3-reading-manipulating-data/Reading-data.ipynb, line 713:
     qtbl = QTable()
     qtbl['name'] = ['Graham Chapman', 'John Cleese', 'Terry Gilliam', 
                     'Eric Idle', 'Terry Jones', 'Michael Palin']
     qtbl['age'] = [np.nan, 78, 77, 74, 75, 74] * u.year
     qtbl
*)
definition reading_data_L713 :: cell where
  "reading_data_L713 =
    [SAssign [EName ''qtbl''] (ECall (EName ''QTable'') [] []),
     SAssign [ESubscript (EName ''qtbl'') (EConst (CStr ''name''))]
       (EList
          [EConst (CStr ''Graham Chapman''), EConst (CStr ''John Cleese''),
           EConst (CStr ''Terry Gilliam''), EConst (CStr ''Eric Idle''),
           EConst (CStr ''Terry Jones''), EConst (CStr ''Michael Palin'')]),
     SAssign [ESubscript (EName ''qtbl'') (EConst (CStr ''age''))]
       (EBinOp
          (EList
             [EAttribute (EName ''np'') ''nan'', EConst (CInt 78), EConst (CInt 77),
              EConst (CInt 74), EConst (CInt 75), EConst (CInt 74)])
          BMult
          (EAttribute (EName ''u'') ''year'')),
     SExpr (EName ''qtbl'')]"

(* pydata2017-astropy/3-reading-manipulating-data/Reading-data.ipynb, line 726:
     type(qtbl['age'])
*)
definition reading_data_L726 :: cell where
  "reading_data_L726 =
    [SExpr (ECall (EName ''type'') [ESubscript (EName ''qtbl'') (EConst (CStr ''age''))] [])]"

(* pydata2017-astropy/3-reading-manipulating-data/Reading-data.ipynb, line 735:
     (qtbl['age'] ** 2).unit
*)
definition reading_data_L735 :: cell where
  "reading_data_L735 =
    [SExpr
       (EAttribute
          (EBinOp (ESubscript (EName ''qtbl'') (EConst (CStr ''age''))) BPow (EConst (CInt 2)))
          ''unit'')]"

(* pydata2017-astropy/3-reading-manipulating-data/Reading-data.ipynb, line 751:
     QTable(tbl)
*)
definition reading_data_L751 :: cell where
  "reading_data_L751 =
    [SExpr (ECall (EName ''QTable'') [EName ''tbl''] [])]"

(* pydata2017-astropy/3-reading-manipulating-data/Reading-data.ipynb, line 760:
     Table(qtbl)
*)
definition reading_data_L760 :: cell where
  "reading_data_L760 =
    [SExpr (ECall (EName ''Table'') [EName ''qtbl''] [])]"

(* pydata2017-astropy/3-reading-manipulating-data/Reading-data.ipynb, line 784:
     from astropy.table import vstack, hstack, join
*)
definition reading_data_L784 :: cell where
  "reading_data_L784 =
    [SImportFrom ''astropy.table'' [(''vstack'', None), (''hstack'', None), (''join'', None)]]"

(* pydata2017-astropy/3-reading-manipulating-data/Reading-data.ipynb, line 802:
     tbl_a = Table()
     tbl_a['cheese'] = ["Red Leicester", "Tilsit", "Caerphilly", "Bel Paese", "Red Windsor"]
     tbl_a['in stock'] = ['no', 'no', 'no', 'no', 'no']
     
     tbl_b = Table()
     tbl_b['cheese'] = ["Stilton", "Gruy\xe8re", "Emmental", "Norwegian Jarlsberg", "Liptauer"]
     tbl_b['in stock'] = ['no', 'no', 'no', 'no', 'no']
*)
definition reading_data_L802 :: cell where
  "reading_data_L802 =
    [SAssign [EName ''tbl_a''] (ECall (EName ''Table'') [] []),
     SAssign [ESubscript (EName ''tbl_a'') (EConst (CStr ''cheese''))]
       (EList
          [EConst (CStr ''Red Leicester''), EConst (CStr ''Tilsit''),
           EConst (CStr ''Caerphilly''), EConst (CStr ''Bel Paese''),
           EConst (CStr ''Red Windsor'')]),
     SAssign [ESubscript (EName ''tbl_a'') (EConst (CStr ''in stock''))]
       (EList
          [EConst (CStr ''no''), EConst (CStr ''no''), EConst (CStr ''no''),
           EConst (CStr ''no''), EConst (CStr ''no'')]),
     SAssign [EName ''tbl_b''] (ECall (EName ''Table'') [] []),
     SAssign [ESubscript (EName ''tbl_b'') (EConst (CStr ''cheese''))]
       (EList
          [EConst (CStr ''Stilton''), EConst (CStr (''Gruy'' @ [CHR 0xC3, CHR 0xA8] @ ''re'')),
           EConst (CStr ''Emmental''), EConst (CStr ''Norwegian Jarlsberg''),
           EConst (CStr ''Liptauer'')]),
     SAssign [ESubscript (EName ''tbl_b'') (EConst (CStr ''in stock''))]
       (EList
          [EConst (CStr ''no''), EConst (CStr ''no''), EConst (CStr ''no''),
           EConst (CStr ''no''), EConst (CStr ''no'')])]"

(* pydata2017-astropy/3-reading-manipulating-data/Reading-data.ipynb, line 817:
     tbl_a.colnames, tbl_b.colnames
*)
definition reading_data_L817 :: cell where
  "reading_data_L817 =
    [SExpr
       (ETuple
          [EAttribute (EName ''tbl_a'') ''colnames'', EAttribute (EName ''tbl_b'') ''colnames''])]"

(* pydata2017-astropy/3-reading-manipulating-data/Reading-data.ipynb, line 826:
     cheese = vstack((tbl_a, tbl_b))
     cheese
*)
definition reading_data_L826 :: cell where
  "reading_data_L826 =
    [SAssign [EName ''cheese'']
       (ECall (EName ''vstack'') [ETuple [EName ''tbl_a'', EName ''tbl_b'']] []),
     SExpr (EName ''cheese'')]"

(* pydata2017-astropy/3-reading-manipulating-data/Reading-data.ipynb, line 847:
     tbl_a = Table()
     tbl_a['name'] = ['Arthur',
                      'Lancelot',
                      'Galahad',
                      'Robin']
     
     tbl_b = Table()
     tbl_b['title'] = ['King of the Britons',
                       'the Brave',
                       'the Pure',
                       'Not-Quite-So-Brave-as-Sir-Lancelot']
*)
definition reading_data_L847 :: cell where
  "reading_data_L847 =
    [SAssign [EName ''tbl_a''] (ECall (EName ''Table'') [] []),
     SAssign [ESubscript (EName ''tbl_a'') (EConst (CStr ''name''))]
       (EList
          [EConst (CStr ''Arthur''), EConst (CStr ''Lancelot''), EConst (CStr ''Galahad''),
           EConst (CStr ''Robin'')]),
     SAssign [EName ''tbl_b''] (ECall (EName ''Table'') [] []),
     SAssign [ESubscript (EName ''tbl_b'') (EConst (CStr ''title''))]
       (EList
          [EConst (CStr ''King of the Britons''), EConst (CStr ''the Brave''),
           EConst (CStr ''the Pure''), EConst (CStr ''Not-Quite-So-Brave-as-Sir-Lancelot'')])]"

(* pydata2017-astropy/3-reading-manipulating-data/Reading-data.ipynb, line 866:
     len(tbl_a), len(tbl_b)
*)
definition reading_data_L866 :: cell where
  "reading_data_L866 =
    [SExpr
       (ETuple
          [ECall (EName ''len'') [EName ''tbl_a''] [],
           ECall (EName ''len'') [EName ''tbl_b''] []])]"

(* pydata2017-astropy/3-reading-manipulating-data/Reading-data.ipynb, line 875:
     knights = hstack((tbl_a, tbl_b))
     knights
*)
definition reading_data_L875 :: cell where
  "reading_data_L875 =
    [SAssign [EName ''knights'']
       (ECall (EName ''hstack'') [ETuple [EName ''tbl_a'', EName ''tbl_b'']] []),
     SExpr (EName ''knights'')]"

(* pydata2017-astropy/3-reading-manipulating-data/Reading-data.ipynb, line 896:
     from astropy.time import Time
*)
definition reading_data_L896 :: cell where
  "reading_data_L896 =
    [SImportFrom ''astropy.time'' [(''Time'', None)]]"

(* pydata2017-astropy/3-reading-manipulating-data/Reading-data.ipynb, line 905:
     tbl_a = Table()
     tbl_a['name'] = ['Arcturus', 'Rigel', 'Betelgeuse']
     tbl_a['ra'] = [213.913315, 78.6344670, 88.7929389] * u.deg
     tbl_a['dec'] = [19.1782489, -8.2016383, 7.4070639] * u.deg
     
     tbl_b = Table()
     tbl_b['name'] = np.array([], dtype='S10')
     tbl_b['time'] = [] * u.hour
     tbl_b['mag'] = [] 
     
     tbl_b.add_row(['Arcturus', 15.2523*u.hour, -0.043])
     tbl_b.add_row(['Arcturus', 16.955*u.hour, -0.041])
     tbl_b.add_row(['Arcturus', 18.011*u.hour, -0.044])
     tbl_b.add_row(['Rigel', 20.011*u.hour, 0.12])
     tbl_b.add_row(['Betelgeuse', 22.334*u.hour, 0.421])
     tbl_b.add_row(['Betelgeuse', 23.930*u.hour, 0.424])
*)
definition reading_data_L905 :: cell where
  "reading_data_L905 =
    [SAssign [EName ''tbl_a''] (ECall (EName ''Table'') [] []),
     SAssign [ESubscript (EName ''tbl_a'') (EConst (CStr ''name''))]
       (EList [EConst (CStr ''Arcturus''), EConst (CStr ''Rigel''), EConst (CStr ''Betelgeuse'')]),
     SAssign [ESubscript (EName ''tbl_a'') (EConst (CStr ''ra''))]
       (EBinOp
          (EList
             [EConst (CFloat ''213.913315''), EConst (CFloat ''78.6344670''),
              EConst (CFloat ''88.7929389'')])
          BMult
          (EAttribute (EName ''u'') ''deg'')),
     SAssign [ESubscript (EName ''tbl_a'') (EConst (CStr ''dec''))]
       (EBinOp
          (EList
             [EConst (CFloat ''19.1782489''), EUnaryOp USub (EConst (CFloat ''8.2016383'')),
              EConst (CFloat ''7.4070639'')])
          BMult
          (EAttribute (EName ''u'') ''deg'')),
     SAssign [EName ''tbl_b''] (ECall (EName ''Table'') [] []),
     SAssign [ESubscript (EName ''tbl_b'') (EConst (CStr ''name''))]
       (ECall (EAttribute (EName ''np'') ''array'') [EList []]
          [(''dtype'', EConst (CStr ''S10''))]),
     SAssign [ESubscript (EName ''tbl_b'') (EConst (CStr ''time''))]
       (EBinOp (EList []) BMult (EAttribute (EName ''u'') ''hour'')),
     SAssign [ESubscript (EName ''tbl_b'') (EConst (CStr ''mag''))] (EList []),
     SExpr
       (ECall (EAttribute (EName ''tbl_b'') ''add_row'')
          [EList
             [EConst (CStr ''Arcturus''),
              EBinOp (EConst (CFloat ''15.2523'')) BMult (EAttribute (EName ''u'') ''hour''),
              EUnaryOp USub (EConst (CFloat ''0.043''))]]
          []),
     SExpr
       (ECall (EAttribute (EName ''tbl_b'') ''add_row'')
          [EList
             [EConst (CStr ''Arcturus''),
              EBinOp (EConst (CFloat ''16.955'')) BMult (EAttribute (EName ''u'') ''hour''),
              EUnaryOp USub (EConst (CFloat ''0.041''))]]
          []),
     SExpr
       (ECall (EAttribute (EName ''tbl_b'') ''add_row'')
          [EList
             [EConst (CStr ''Arcturus''),
              EBinOp (EConst (CFloat ''18.011'')) BMult (EAttribute (EName ''u'') ''hour''),
              EUnaryOp USub (EConst (CFloat ''0.044''))]]
          []),
     SExpr
       (ECall (EAttribute (EName ''tbl_b'') ''add_row'')
          [EList
             [EConst (CStr ''Rigel''),
              EBinOp (EConst (CFloat ''20.011'')) BMult (EAttribute (EName ''u'') ''hour''),
              EConst (CFloat ''0.12'')]]
          []),
     SExpr
       (ECall (EAttribute (EName ''tbl_b'') ''add_row'')
          [EList
             [EConst (CStr ''Betelgeuse''),
              EBinOp (EConst (CFloat ''22.334'')) BMult (EAttribute (EName ''u'') ''hour''),
              EConst (CFloat ''0.421'')]]
          []),
     SExpr
       (ECall (EAttribute (EName ''tbl_b'') ''add_row'')
          [EList
             [EConst (CStr ''Betelgeuse''),
              EBinOp (EConst (CFloat ''23.930'')) BMult (EAttribute (EName ''u'') ''hour''),
              EConst (CFloat ''0.424'')]]
          [])]"

(* pydata2017-astropy/3-reading-manipulating-data/Reading-data.ipynb, line 929:
     bright_stars = join(tbl_a, tbl_b, keys='name')
     bright_stars
*)
definition reading_data_L929 :: cell where
  "reading_data_L929 =
    [SAssign [EName ''bright_stars'']
       (ECall (EName ''join'') [EName ''tbl_a'', EName ''tbl_b'']
          [(''keys'', EConst (CStr ''name''))]),
     SExpr (EName ''bright_stars'')]"

(* pydata2017-astropy/3-reading-manipulating-data/Reading-data.ipynb, line 956:
     # stars = ...
     # visits = ...
     
     stars = Table.read('data/apogee-allStar.fits')
     visits = Table.read('data/apogee-allVisit.fits')
*)
definition reading_data_L956 :: cell where
  "reading_data_L956 =
    [SAssign [EName ''stars'']
       (ECall (EAttribute (EName ''Table'') ''read'')
          [EConst (CStr ''data/apogee-allStar.fits'')]
          []),
     SAssign [EName ''visits'']
       (ECall (EAttribute (EName ''Table'') ''read'')
          [EConst (CStr ''data/apogee-allVisit.fits'')]
          [])]"

(* pydata2017-astropy/3-reading-manipulating-data/Reading-data.ipynb, line 976:
     print(stars.colnames)
     print(visits.colnames)
*)
definition reading_data_L976 :: cell where
  "reading_data_L976 =
    [SExpr (ECall (EName ''print'') [EAttribute (EName ''stars'') ''colnames''] []),
     SExpr (ECall (EName ''print'') [EAttribute (EName ''visits'') ''colnames''] [])]"

(* pydata2017-astropy/3-reading-manipulating-data/Reading-data.ipynb, line 1017:
     stars.show_in_notebook()
*)
definition reading_data_L1017 :: cell where
  "reading_data_L1017 =
    [SExpr (ECall (EAttribute (EName ''stars'') ''show_in_notebook'') [] [])]"

(* pydata2017-astropy/3-reading-manipulating-data/Reading-data.ipynb, line 1038: an empty cell *)
definition reading_data_L1038 :: cell where
  "reading_data_L1038 = []"

(* pydata2017-astropy/3-reading-manipulating-data/Reading-data.ipynb, line 1054: an empty cell *)
definition reading_data_L1054 :: cell where
  "reading_data_L1054 = []"

(* pydata2017-astropy/3-reading-manipulating-data/Reading-data.ipynb, line 1070: an empty cell *)
definition reading_data_L1070 :: cell where
  "reading_data_L1070 = []"

(* pydata2017-astropy/3-reading-manipulating-data/Reading-data.ipynb, line 1088: an empty cell *)
definition reading_data_L1088 :: cell where
  "reading_data_L1088 = []"

(* pydata2017-astropy/3-reading-manipulating-data/Reading-data.ipynb, line 1104: an empty cell *)
definition reading_data_L1104 :: cell where
  "reading_data_L1104 = []"

(* pydata2017-astropy/3-reading-manipulating-data/Reading-data.ipynb, line 1113: an empty cell *)
definition reading_data_L1113 :: cell where
  "reading_data_L1113 = []"

definition reading_data_cells :: notebook where
  "reading_data_cells =
    [reading_data_L23, reading_data_L86, reading_data_L106, reading_data_L127,
     reading_data_L143, reading_data_L159, reading_data_L168, reading_data_L184,
     reading_data_L202, reading_data_L211, reading_data_L220, reading_data_L229,
     reading_data_L238, reading_data_L247, reading_data_L256, reading_data_L274,
     reading_data_L297, reading_data_L306, reading_data_L323, reading_data_L344,
     reading_data_L362, reading_data_L378, reading_data_L398, reading_data_L407,
     reading_data_L424, reading_data_L435, reading_data_L451, reading_data_L462,
     reading_data_L471, reading_data_L482, reading_data_L500, reading_data_L524,
     reading_data_L540, reading_data_L553, reading_data_L564, reading_data_L575,
     reading_data_L593, reading_data_L611, reading_data_L621, reading_data_L633,
     reading_data_L642, reading_data_L653, reading_data_L675, reading_data_L697,
     reading_data_L713, reading_data_L726, reading_data_L735, reading_data_L751,
     reading_data_L760, reading_data_L784, reading_data_L802, reading_data_L817,
     reading_data_L826, reading_data_L847, reading_data_L866, reading_data_L875,
     reading_data_L896, reading_data_L905, reading_data_L929, reading_data_L956,
     reading_data_L976, reading_data_L1017, reading_data_L1038, reading_data_L1054,
     reading_data_L1070, reading_data_L1088, reading_data_L1104, reading_data_L1113]"

(* unnamed/part_000, line 69:
     # initial imports
     import numpy as np
     import matplotlib.pyplot as plt
     
     # change some default plotting parameters
     import matplotlib as mpl
     mpl.rcParams['image.origin'] = 'lower'
     mpl.rcParams['image.interpolation'] = 'nearest'
     mpl.rcParams['image.cmap'] = 'viridis'
     
     # Run the %matplotlib magic command to enable inline plotting
     # in the current notebook.  Choose one of these:
     %matplotlib inline
     # %matplotlib notebook
*)
definition photutils_L69 :: cell where
  "photutils_L69 =
    [SImport [(''numpy'', Some ''np'')],
     SImport [(''matplotlib.pyplot'', Some ''plt'')],
     SImport [(''matplotlib'', Some ''mpl'')],
     SAssign
       [ESubscript (EAttribute (EName ''mpl'') ''rcParams'') (EConst (CStr ''image.origin''))]
       (EConst (CStr ''lower'')),
     SAssign
       [ESubscript (EAttribute (EName ''mpl'') ''rcParams'')
          (EConst (CStr ''image.interpolation''))]
       (EConst (CStr ''nearest'')),
     SAssign [ESubscript (EAttribute (EName ''mpl'') ''rcParams'') (EConst (CStr ''image.cmap''))]
       (EConst (CStr ''viridis'')),
     SMagic ''matplotlib'' ''inline'']"

(* unnamed/part_000, line 113:
     from astropy.io import fits
     sci_fn = 'data/xdf_hst_wfc3ir_60mas_f160w_sci.fits'
     rms_fn = 'data/xdf_hst_wfc3ir_60mas_f160w_rms.fits'
     sci_hdulist = fits.open(sci_fn)
     rms_hdulist = fits.open(rms_fn)
     
     sci_hdulist[0].header['BUNIT'] = 'electron/s'
*)
definition photutils_L113 :: cell where
  "photutils_L113 =
    [SImportFrom ''astropy.io'' [(''fits'', None)],
     SAssign [EName ''sci_fn''] (EConst (CStr ''data/xdf_hst_wfc3ir_60mas_f160w_sci.fits'')),
     SAssign [EName ''rms_fn''] (EConst (CStr ''data/xdf_hst_wfc3ir_60mas_f160w_rms.fits'')),
     SAssign [EName ''sci_hdulist'']
       (ECall (EAttribute (EName ''fits'') ''open'') [EName ''sci_fn''] []),
     SAssign [EName ''rms_hdulist'']
       (ECall (EAttribute (EName ''fits'') ''open'') [EName ''rms_fn''] []),
     SAssign
       [ESubscript (EAttribute (ESubscript (EName ''sci_hdulist'') (EConst (CInt 0))) ''header'')
          (EConst (CStr ''BUNIT''))]
       (EConst (CStr ''electron/s''))]"

(* unnamed/part_000, line 137:
     sci_hdulist.info()
*)
definition photutils_L137 :: cell where
  "photutils_L137 =
    [SExpr (ECall (EAttribute (EName ''sci_hdulist'') ''info'') [] [])]"

(* unnamed/part_000, line 157:
     data = sci_hdulist[0].data.astype(np.float)
     error = rms_hdulist[0].data.astype(np.float)
*)
definition photutils_L157 :: cell where
  "photutils_L157 =
    [SAssign [EName ''data'']
       (ECall
          (EAttribute
             (EAttribute (ESubscript (EName ''sci_hdulist'') (EConst (CInt 0))) ''data'')
             ''astype'')
          [EAttribute (EName ''np'') ''float'']
          []),
     SAssign [EName ''error'']
       (ECall
          (EAttribute
             (EAttribute (ESubscript (EName ''rms_hdulist'') (EConst (CInt 0))) ''data'')
             ''astype'')
          [EAttribute (EName ''np'') ''float'']
          [])]"

(* unnamed/part_000, line 178:
     from astropy.wcs import WCS
     
     hdr = sci_hdulist[0].header
     wcs = WCS(hdr)
*)
definition photutils_L178 :: cell where
  "photutils_L178 =
    [SImportFrom ''astropy.wcs'' [(''WCS'', None)],
     SAssign [EName ''hdr'']
       (EAttribute (ESubscript (EName ''sci_hdulist'') (EConst (CInt 0))) ''header''),
     SAssign [EName ''wcs''] (ECall (EName ''WCS'') [EName ''hdr''] [])]"

(* unnamed/part_000, line 201:
     from astropy.visualization import simple_norm
     norm = simple_norm(data, 'sqrt', percent=99.5)
     plt.imshow(data, norm=norm)
*)
definition photutils_L201 :: cell where
  "photutils_L201 =
    [SImportFrom ''astropy.visualization'' [(''simple_norm'', None)],
     SAssign [EName ''norm'']
       (ECall (EName ''simple_norm'') [EName ''data'', EConst (CStr ''sqrt'')]
          [(''percent'', EConst (CFloat ''99.5''))]),
     SExpr
       (ECall (EAttribute (EName ''plt'') ''imshow'') [EName ''data'']
          [(''norm'', EName ''norm'')])]"

(* unnamed/part_000, line 300:
     from photutils import CircularAperture
     
     position = (90.73, 59.43)  # (x, y) pixel position
     radius = 5.  # pixels
     aperture = CircularAperture(position, r=radius)
*)
definition photutils_L300 :: cell where
  "photutils_L300 =
    [SImportFrom ''photutils'' [(''CircularAperture'', None)],
     SAssign [EName ''position''] (ETuple [EConst (CFloat ''90.73''), EConst (CFloat ''59.43'')]),
     SAssign [EName ''radius''] (EConst (CFloat ''5.'')),
     SAssign [EName ''aperture'']
       (ECall (EName ''CircularAperture'') [EName ''position''] [(''r'', EName ''radius'')])]"

(* unnamed/part_000, line 313:
     aperture
*)
definition photutils_L313 :: cell where
  "photutils_L313 =
    [SExpr (EName ''aperture'')]"

(* unnamed/part_000, line 322:
     print(aperture)
*)
definition photutils_L322 :: cell where
  "photutils_L322 =
    [SExpr (ECall (EName ''print'') [EName ''aperture''] [])]"

(* unnamed/part_000, line 338:
     plt.imshow(data, norm=norm)
     aperture.plot(color='red', lw=2)
*)
definition photutils_L338 :: cell where
  "photutils_L338 =
    [SExpr
       (ECall (EAttribute (EName ''plt'') ''imshow'') [EName ''data'']
          [(''norm'', EName ''norm'')]),
     SExpr
       (ECall (EAttribute (EName ''aperture'') ''plot'') []
          [(''color'', EConst (CStr ''red'')), (''lw'', EConst (CInt 2))])]"

(* unnamed/part_000, line 363:
     from photutils import aperture_photometry
     
     phot = aperture_photometry(data, aperture)
     phot
*)
definition photutils_L363 :: cell where
  "photutils_L363 =
    [SImportFrom ''photutils'' [(''aperture_photometry'', None)],
     SAssign [EName ''phot'']
       (ECall (EName ''aperture_photometry'') [EName ''data'', EName ''aperture''] []),
     SExpr (EName ''phot'')]"

(* unnamed/part_000, line 384:
     phot.meta
*)
definition photutils_L384 :: cell where
  "photutils_L384 =
    [SExpr (EAttribute (EName ''phot'') ''meta'')]"

(* unnamed/part_000, line 393:
     phot.meta['version']
*)
definition photutils_L393 :: cell where
  "photutils_L393 =
    [SExpr (ESubscript (EAttribute (EName ''phot'') ''meta'') (EConst (CStr ''version'')))]"

(* unnamed/part_000, line 413:
     phot = aperture_photometry(data, aperture, method='center')
     phot
*)
definition photutils_L413 :: cell where
  "photutils_L413 =
    [SAssign [EName ''phot'']
       (ECall (EName ''aperture_photometry'') [EName ''data'', EName ''aperture'']
          [(''method'', EConst (CStr ''center''))]),
     SExpr (EName ''phot'')]"

(* unnamed/part_000, line 436:
     phot = aperture_photometry(data, aperture, method='subpixel', subpixels=5)
     phot
*)
definition photutils_L436 :: cell where
  "photutils_L436 =
    [SAssign [EName ''phot'']
       (ECall (EName ''aperture_photometry'') [EName ''data'', EName ''aperture'']
          [(''method'', EConst (CStr ''subpixel'')), (''subpixels'', EConst (CInt 5))]),
     SExpr (EName ''phot'')]"

(* unnamed/part_000, line 462:
     phot = aperture_photometry(data, aperture, error=error)
     phot
*)
definition photutils_L462 :: cell where
  "photutils_L462 =
    [SAssign [EName ''phot'']
       (ECall (EName ''aperture_photometry'') [EName ''data'', EName ''aperture'']
          [(''error'', EName ''error'')]),
     SExpr (EName ''phot'')]"

(* unnamed/part_000, line 489:
     # this time include the Poisson error of the source
     from photutils.utils import calc_total_error
     
     # our data array is in units of e-/s
     # so the "effective gain" should be the exposure time
     eff_gain = hdr['TEXPTIME']
     tot_error = calc_total_error(data, error, eff_gain)
     
     phot = aperture_photometry(data, aperture, error=tot_error)
     phot
*)
definition photutils_L489 :: cell where
  "photutils_L489 =
    [SImportFrom ''photutils.utils'' [(''calc_total_error'', None)],
     SAssign [EName ''eff_gain''] (ESubscript (EName ''hdr'') (EConst (CStr ''TEXPTIME''))),
     SAssign [EName ''tot_error'']
       (ECall (EName ''calc_total_error'') [EName ''data'', EName ''error'', EName ''eff_gain'']
          []),
     SAssign [EName ''phot'']
       (ECall (EName ''aperture_photometry'') [EName ''data'', EName ''aperture'']
          [(''error'', EName ''tot_error'')]),
     SExpr (EName ''phot'')]"

(* unnamed/part_000, line 532:
     # input the data units
     import astropy.units as u
     
     unit = u.electron / u.s
     phot = aperture_photometry(data, aperture, error=tot_error, unit=unit)
     phot
*)
definition photutils_L532 :: cell where
  "photutils_L532 =
    [SImport [(''astropy.units'', Some ''u'')],
     SAssign [EName ''unit'']
       (EBinOp (EAttribute (EName ''u'') ''electron'') BDiv (EAttribute (EName ''u'') ''s'')),
     SAssign [EName ''phot'']
       (ECall (EName ''aperture_photometry'') [EName ''data'', EName ''aperture'']
          [(''error'', EName ''tot_error''), (''unit'', EName ''unit'')]),
     SExpr (EName ''phot'')]"

(* unnamed/part_000, line 553:
     phot = aperture_photometry(data * unit, aperture, error=tot_error * u.adu)
     phot
*)
definition photutils_L553 :: cell where
  "photutils_L553 =
    [SAssign [EName ''phot'']
       (ECall (EName ''aperture_photometry'')
          [EBinOp (EName ''data'') BMult (EName ''unit''), EName ''aperture'']
          [(''error'', EBinOp (EName ''tot_error'') BMult (EAttribute (EName ''u'') ''adu''))]),
     SExpr (EName ''phot'')]"

(* unnamed/part_000, line 570:
     phot = aperture_photometry(data * unit, aperture, error=tot_error * u.adu, unit=u.photon)
     phot
*)
definition photutils_L570 :: cell where
  "photutils_L570 =
    [SAssign [EName ''phot'']
       (ECall (EName ''aperture_photometry'')
          [EBinOp (EName ''data'') BMult (EName ''unit''), EName ''aperture'']
          [(''error'', EBinOp (EName ''tot_error'') BMult (EAttribute (EName ''u'') ''adu'')),
           (''unit'', EAttribute (EName ''u'') ''photon'')]),
     SExpr (EName ''phot'')]"

(* unnamed/part_000, line 602:
     positions = [(90.73, 59.43), (73.63, 139.41), (43.62, 61.63)]
     radius = 5.
     apertures = CircularAperture(positions, r=radius)
*)
definition photutils_L602 :: cell where
  "photutils_L602 =
    [SAssign [EName ''positions'']
       (EList
          [ETuple [EConst (CFloat ''90.73''), EConst (CFloat ''59.43'')],
           ETuple [EConst (CFloat ''73.63''), EConst (CFloat ''139.41'')],
           ETuple [EConst (CFloat ''43.62''), EConst (CFloat ''61.63'')]]),
     SAssign [EName ''radius''] (EConst (CFloat ''5.'')),
     SAssign [EName ''apertures'']
       (ECall (EName ''CircularAperture'') [EName ''positions''] [(''r'', EName ''radius'')])]"

(* unnamed/part_000, line 620:
     plt.imshow(data, norm=norm)
     apertures.plot(color='red', lw=2)
*)
definition photutils_L620 :: cell where
  "photutils_L620 =
    [SExpr
       (ECall (EAttribute (EName ''plt'') ''imshow'') [EName ''data'']
          [(''norm'', EName ''norm'')]),
     SExpr
       (ECall (EAttribute (EName ''apertures'') ''plot'') []
          [(''color'', EConst (CStr ''red'')), (''lw'', EConst (CInt 2))])]"

(* unnamed/part_000, line 641:
     phot = aperture_photometry(data, apertures, error=tot_error, unit=unit)
     phot
*)
definition photutils_L641 :: cell where
  "photutils_L641 =
    [SAssign [EName ''phot'']
       (ECall (EName ''aperture_photometry'') [EName ''data'', EName ''apertures'']
          [(''error'', EName ''tot_error''), (''unit'', EName ''unit'')]),
     SExpr (EName ''phot'')]"

(* unnamed/part_000, line 669:
     # create a bad pixel in the first source
     data2 = data.copy()
     x = 59
     y = 91
     data2[y, x] = 100.  # bad value
     
     aperture_photometry(data2, apertures, error=tot_error)
*)
definition photutils_L669 :: cell where
  "photutils_L669 =
    [SAssign [EName ''data2''] (ECall (EAttribute (EName ''data'') ''copy'') [] []),
     SAssign [EName ''x''] (EConst (CInt 59)),
     SAssign [EName ''y''] (EConst (CInt 91)),
     SAssign [ESubscript (EName ''data2'') (ETuple [EName ''y'', EName ''x''])]
       (EConst (CFloat ''100.'')),
     SExpr
       (ECall (EName ''aperture_photometry'') [EName ''data2'', EName ''apertures'']
          [(''error'', EName ''tot_error'')])]"

(* unnamed/part_000, line 697:
     mask = np.zeros_like(data2, dtype=bool)
     mask[y, x] = True
     
     aperture_photometry(data2, apertures, error=tot_error, mask=mask)
*)
definition photutils_L697 :: cell where
  "photutils_L697 =
    [SAssign [EName ''mask'']
       (ECall (EAttribute (EName ''np'') ''zeros_like'') [EName ''data2'']
          [(''dtype'', EName ''bool'')]),
     SAssign [ESubscript (EName ''mask'') (ETuple [EName ''y'', EName ''x''])]
       (EConst (CBool True)),
     SExpr
       (ECall (EName ''aperture_photometry'') [EName ''data2'', EName ''apertures'']
          [(''error'', EName ''tot_error''), (''mask'', EName ''mask'')])]"

(* unnamed/part_000, line 732:
     snr = phot['aperture_sum'] / phot['aperture_sum_err']   # units will cancel
     
     phot['snr'] = snr
     phot
*)
definition photutils_L732 :: cell where
  "photutils_L732 =
    [SAssign [EName ''snr'']
       (EBinOp (ESubscript (EName ''phot'') (EConst (CStr ''aperture_sum''))) BDiv
          (ESubscript (EName ''phot'') (EConst (CStr ''aperture_sum_err'')))),
     SAssign [ESubscript (EName ''phot'') (EConst (CStr ''snr''))] (EName ''snr''),
     SExpr (EName ''phot'')]"

(* unnamed/part_000, line 755:
     f160w_zpt = 25.9463
     
     # NOTE that the log10() function can be applied only to dimensionless quantities
     # so we use the value() method to get the number value of the aperture sum
     abmag = -2.5 * np.log10(phot['aperture_sum'].value) + f160w_zpt
     
     phot['abmag'] = abmag
     phot
*)
definition photutils_L755 :: cell where
  "photutils_L755 =
    [SAssign [EName ''f160w_zpt''] (EConst (CFloat ''25.9463'')),
     SAssign [EName ''abmag'']
       (EBinOp
          (EBinOp (EUnaryOp USub (EConst (CFloat ''2.5''))) BMult
             (ECall (EAttribute (EName ''np'') ''log10'')
                [EAttribute (ESubscript (EName ''phot'') (EConst (CStr ''aperture_sum'')))
                   ''value'']
                []))
          BAdd
          (EName ''f160w_zpt'')),
     SAssign [ESubscript (EName ''phot'') (EConst (CStr ''abmag''))] (EName ''abmag''),
     SExpr (EName ''phot'')]"

(* unnamed/part_000, line 782:
     from astropy.wcs.utils import pixel_to_skycoord
     
     # convert pixel positions to sky coordinates
     x, y = np.transpose(positions)
     coord = pixel_to_skycoord(x, y, wcs)
     
     # we can add the astropy SkyCoord object directly to the table
     phot['sky coord'] = coord
     phot
*)
definition photutils_L782 :: cell where
  "photutils_L782 =
    [SImportFrom ''astropy.wcs.utils'' [(''pixel_to_skycoord'', None)],
     SAssign [ETuple [EName ''x'', EName ''y'']]
       (ECall (EAttribute (EName ''np'') ''transpose'') [EName ''positions''] []),
     SAssign [EName ''coord'']
       (ECall (EName ''pixel_to_skycoord'') [EName ''x'', EName ''y'', EName ''wcs''] []),
     SAssign [ESubscript (EName ''phot'') (EConst (CStr ''sky coord''))] (EName ''coord''),
     SExpr (EName ''phot'')]"

(* unnamed/part_000, line 810:
     phot['ra_icrs'] = coord.icrs.ra
     phot['dec_icrs'] = coord.icrs.dec
     phot
*)
definition photutils_L810 :: cell where
  "photutils_L810 =
    [SAssign [ESubscript (EName ''phot'') (EConst (CStr ''ra_icrs''))]
       (EAttribute (EAttribute (EName ''coord'') ''icrs'') ''ra''),
     SAssign [ESubscript (EName ''phot'') (EConst (CStr ''dec_icrs''))]
       (EAttribute (EAttribute (EName ''coord'') ''icrs'') ''dec''),
     SExpr (EName ''phot'')]"

(* unnamed/part_000, line 828:
     phot.write('my_photometry.txt', format='ascii.ecsv')
*)
definition photutils_L828 :: cell where
  "photutils_L828 =
    [SExpr
       (ECall (EAttribute (EName ''phot'') ''write'') [EConst (CStr ''my_photometry.txt'')]
          [(''format'', EConst (CStr ''ascii.ecsv''))])]"

(* unnamed/part_000, line 837:
     # view the table on disk
     !cat my_photometry.txt
*)
definition photutils_L837 :: cell where
  "photutils_L837 =
    [SShell ''cat my_photometry.txt'']"

(* unnamed/part_000, line 854:
     from astropy.table import QTable
     tbl = QTable.read('my_photometry.txt', format='ascii.ecsv')
     tbl
*)
definition photutils_L854 :: cell where
  "photutils_L854 =
    [SImportFrom ''astropy.table'' [(''QTable'', None)],
     SAssign [EName ''tbl'']
       (ECall (EAttribute (EName ''QTable'') ''read'') [EConst (CStr ''my_photometry.txt'')]
          [(''format'', EConst (CStr ''ascii.ecsv''))]),
     SExpr (EName ''tbl'')]"

(* unnamed/part_000, line 865:
     tbl.meta
*)
definition photutils_L865 :: cell where
  "photutils_L865 =
    [SExpr (EAttribute (EName ''tbl'') ''meta'')]"

(* unnamed/part_000, line 874:
     tbl['aperture_sum']   # Quantity array
*)
definition photutils_L874 :: cell where
  "photutils_L874 =
    [SExpr (ESubscript (EName ''tbl'') (EConst (CStr ''aperture_sum'')))]"

(* unnamed/part_000, line 883:
     tbl['sky coord']    # SkyCoord array
*)
definition photutils_L883 :: cell where
  "photutils_L883 =
    [SExpr (ESubscript (EName ''tbl'') (EConst (CStr ''sky coord'')))]"

(* unnamed/part_000, line 917:
     positions = [(90.73, 59.43), (73.63, 139.41), (43.62, 61.63)]
     x, y = np.transpose(positions)
     coord = pixel_to_skycoord(x, y, wcs)
     coord
*)
definition photutils_L917 :: cell where
  "photutils_L917 =
    [SAssign [EName ''positions'']
       (EList
          [ETuple [EConst (CFloat ''90.73''), EConst (CFloat ''59.43'')],
           ETuple [EConst (CFloat ''73.63''), EConst (CFloat ''139.41'')],
           ETuple [EConst (CFloat ''43.62''), EConst (CFloat ''61.63'')]]),
     SAssign [ETuple [EName ''x'', EName ''y'']]
       (ECall (EAttribute (EName ''np'') ''transpose'') [EName ''positions''] []),
     SAssign [EName ''coord'']
       (ECall (EName ''pixel_to_skycoord'') [EName ''x'', EName ''y'', EName ''wcs''] []),
     SExpr (EName ''coord'')]"

(* unnamed/part_000, line 942:
     from photutils import SkyCircularAperture
     
     radius = 5. * u.pix
     sky_apers = SkyCircularAperture(coord, r=radius)
     sky_apers.r
*)
definition photutils_L942 :: cell where
  "photutils_L942 =
    [SImportFrom ''photutils'' [(''SkyCircularAperture'', None)],
     SAssign [EName ''radius'']
       (EBinOp (EConst (CFloat ''5.'')) BMult (EAttribute (EName ''u'') ''pix'')),
     SAssign [EName ''sky_apers'']
       (ECall (EName ''SkyCircularAperture'') [EName ''coord''] [(''r'', EName ''radius'')]),
     SExpr (EAttribute (EName ''sky_apers'') ''r'')]"

(* unnamed/part_000, line 955:
     radius = 0.5 * u.arcsec
     sky_apers = SkyCircularAperture(coord, r=radius)
     sky_apers.r
*)
definition photutils_L955 :: cell where
  "photutils_L955 =
    [SAssign [EName ''radius'']
       (EBinOp (EConst (CFloat ''0.5'')) BMult (EAttribute (EName ''u'') ''arcsec'')),
     SAssign [EName ''sky_apers'']
       (ECall (EName ''SkyCircularAperture'') [EName ''coord''] [(''r'', EName ''radius'')]),
     SExpr (EAttribute (EName ''sky_apers'') ''r'')]"

(* unnamed/part_000, line 977:
     # via the wcs keyword
     phot = aperture_photometry(data, sky_apers, wcs=wcs)
     phot
*)
definition photutils_L977 :: cell where
  "photutils_L977 =
    [SAssign [EName ''phot'']
       (ECall (EName ''aperture_photometry'') [EName ''data'', EName ''sky_apers'']
          [(''wcs'', EName ''wcs'')]),
     SExpr (EName ''phot'')]"

(* unnamed/part_000, line 993:
     # or via a FITS hdu (i.e. header and data) as the input "data"
     phot = aperture_photometry(sci_hdulist[0], sky_apers)
     phot
*)
definition photutils_L993 :: cell where
  "photutils_L993 =
    [SAssign [EName ''phot'']
       (ECall (EName ''aperture_photometry'')
          [ESubscript (EName ''sci_hdulist'') (EConst (CInt 0)), EName ''sky_apers'']
          []),
     SExpr (EName ''phot'')]"

(* unnamed/part_000, line 1043:
     from photutils import CircularAnnulus
     
     positions = [(90.73, 59.43), (73.63, 139.41), (43.62, 61.63)]
     
     aper = CircularAperture(positions, r=3)
     bkg_aper = CircularAnnulus(positions, r_in=10., r_out=15.)
     apers = [aper, bkg_aper]
*)
definition photutils_L1043 :: cell where
  "photutils_L1043 =
    [SImportFrom ''photutils'' [(''CircularAnnulus'', None)],
     SAssign [EName ''positions'']
       (EList
          [ETuple [EConst (CFloat ''90.73''), EConst (CFloat ''59.43'')],
           ETuple [EConst (CFloat ''73.63''), EConst (CFloat ''139.41'')],
           ETuple [EConst (CFloat ''43.62''), EConst (CFloat ''61.63'')]]),
     SAssign [EName ''aper'']
       (ECall (EName ''CircularAperture'') [EName ''positions''] [(''r'', EConst (CInt 3))]),
     SAssign [EName ''bkg_aper'']
       (ECall (EName ''CircularAnnulus'') [EName ''positions'']
          [(''r_in'', EConst (CFloat ''10.'')), (''r_out'', EConst (CFloat ''15.''))]),
     SAssign [EName ''apers''] (EList [EName ''aper'', EName ''bkg_aper''])]"

(* unnamed/part_000, line 1065:
     plt.imshow(data, norm=norm)
     aper.plot(color='white', lw=2)
     bkg_aper.plot(color='white', lw=2, hatch='//', alpha=0.5)
*)
definition photutils_L1065 :: cell where
  "photutils_L1065 =
    [SExpr
       (ECall (EAttribute (EName ''plt'') ''imshow'') [EName ''data'']
          [(''norm'', EName ''norm'')]),
     SExpr
       (ECall (EAttribute (EName ''aper'') ''plot'') []
          [(''color'', EConst (CStr ''white'')), (''lw'', EConst (CInt 2))]),
     SExpr
       (ECall (EAttribute (EName ''bkg_aper'') ''plot'') []
          [(''color'', EConst (CStr ''white'')), (''lw'', EConst (CInt 2)),
           (''hatch'', EConst (CStr ''//'')), (''alpha'', EConst (CFloat ''0.5''))])]"

(* unnamed/part_000, line 1092:
     phot = aperture_photometry(data, apers)
     phot.rename_column('aperture_sum_0', 'aperture_sum')
     phot.rename_column('aperture_sum_1', 'annulus_sum')
     phot
*)
definition photutils_L1092 :: cell where
  "photutils_L1092 =
    [SAssign [EName ''phot'']
       (ECall (EName ''aperture_photometry'') [EName ''data'', EName ''apers''] []),
     SExpr
       (ECall (EAttribute (EName ''phot'') ''rename_column'')
          [EConst (CStr ''aperture_sum_0''), EConst (CStr ''aperture_sum'')]
          []),
     SExpr
       (ECall (EAttribute (EName ''phot'') ''rename_column'')
          [EConst (CStr ''aperture_sum_1''), EConst (CStr ''annulus_sum'')]
          []),
     SExpr (EName ''phot'')]"

(* unnamed/part_000, line 1113:
     phot['annulus_mean'] = phot['annulus_sum'] / bkg_aper.area()
     phot
*)
definition photutils_L1113 :: cell where
  "photutils_L1113 =
    [SAssign [ESubscript (EName ''phot'') (EConst (CStr ''annulus_mean''))]
       (EBinOp (ESubscript (EName ''phot'') (EConst (CStr ''annulus_sum''))) BDiv
          (ECall (EAttribute (EName ''bkg_aper'') ''area'') [] [])),
     SExpr (EName ''phot'')]"

(* unnamed/part_000, line 1130:
     phot['aperture_bkg'] = phot['annulus_mean'] * aper.area()
     phot
*)
definition photutils_L1130 :: cell where
  "photutils_L1130 =
    [SAssign [ESubscript (EName ''phot'') (EConst (CStr ''aperture_bkg''))]
       (EBinOp (ESubscript (EName ''phot'') (EConst (CStr ''annulus_mean''))) BMult
          (ECall (EAttribute (EName ''aper'') ''area'') [] [])),
     SExpr (EName ''phot'')]"

(* unnamed/part_000, line 1147:
      # subtract the background
     flux_bkgsub = phot['aperture_sum'] - phot['aperture_bkg']
     
     phot['aperture_sum_bkgsub'] = flux_bkgsub
     phot
*)
definition photutils_L1147 :: cell where
  "photutils_L1147 =
    [SAssign [EName ''flux_bkgsub'']
       (EBinOp (ESubscript (EName ''phot'') (EConst (CStr ''aperture_sum''))) BSub
          (ESubscript (EName ''phot'') (EConst (CStr ''aperture_bkg'')))),
     SAssign [ESubscript (EName ''phot'') (EConst (CStr ''aperture_sum_bkgsub''))]
       (EName ''flux_bkgsub''),
     SExpr (EName ''phot'')]"

(* unnamed/part_000, line 1182:
     bkg = 0.  # background level in this image
     nsigma = 2.
     threshold = bkg + (nsigma * error)  # this should be background-only error
*)
definition photutils_L1182 :: cell where
  "photutils_L1182 =
    [SAssign [EName ''bkg''] (EConst (CFloat ''0.'')),
     SAssign [EName ''nsigma''] (EConst (CFloat ''2.'')),
     SAssign [EName ''threshold'']
       (EBinOp (EName ''bkg'') BAdd (EBinOp (EName ''nsigma'') BMult (EName ''error'')))]"

(* unnamed/part_000, line 1208:
     from photutils import detect_sources
     
     npixels = 5
     segm = detect_sources(data, threshold, npixels)
     
     print('Found {0} sources'.format(segm.nlabels))
*)
definition photutils_L1208 :: cell where
  "photutils_L1208 =
    [SImportFrom ''photutils'' [(''detect_sources'', None)],
     SAssign [EName ''npixels''] (EConst (CInt 5)),
     SAssign [EName ''segm'']
       (ECall (EName ''detect_sources'') [EName ''data'', EName ''threshold'', EName ''npixels'']
          []),
     SExpr
       (ECall (EName ''print'')
          [ECall (EAttribute (EConst (CStr ''Found {0} sources'')) ''format'')
             [EAttribute (EName ''segm'') ''nlabels'']
             []]
          [])]"

(* unnamed/part_000, line 1229:
     from photutils.utils import random_cmap
     
     fig, (ax1, ax2) = plt.subplots(1, 2, figsize=(10, 8))
     ax1.imshow(data, norm=norm)
     lbl1 = ax1.set_title('Data')
     ax2.imshow(segm, cmap=segm.cmap())
     lbl2 = ax2.set_title('Segmentation Image')
*)
definition photutils_L1229 :: cell where
  "photutils_L1229 =
    [SImportFrom ''photutils.utils'' [(''random_cmap'', None)],
     SAssign [ETuple [EName ''fig'', ETuple [EName ''ax1'', EName ''ax2'']]]
       (ECall (EAttribute (EName ''plt'') ''subplots'') [EConst (CInt 1), EConst (CInt 2)]
          [(''figsize'', ETuple [EConst (CInt 10), EConst (CInt 8)])]),
     SExpr
       (ECall (EAttribute (EName ''ax1'') ''imshow'') [EName ''data'']
          [(''norm'', EName ''norm'')]),
     SAssign [EName ''lbl1'']
       (ECall (EAttribute (EName ''ax1'') ''set_title'') [EConst (CStr ''Data'')] []),
     SExpr
       (ECall (EAttribute (EName ''ax2'') ''imshow'') [EName ''segm'']
          [(''cmap'', ECall (EAttribute (EName ''segm'') ''cmap'') [] [])]),
     SAssign [EName ''lbl2'']
       (ECall (EAttribute (EName ''ax2'') ''set_title'') [EConst (CStr ''Segmentation Image'')]
          [])]"

(* unnamed/part_000, line 1257:
     from astropy.convolution import Gaussian2DKernel
     from astropy.stats import gaussian_fwhm_to_sigma
     
     sigma = 2.0 * gaussian_fwhm_to_sigma    # FWHM = 2 pixels
     kernel = Gaussian2DKernel(sigma, x_size=5, y_size=5)
     kernel.normalize()
     
     ssegm = detect_sources(data, threshold, npixels, filter_kernel=kernel)
*)
definition photutils_L1257 :: cell where
  "photutils_L1257 =
    [SImportFrom ''astropy.convolution'' [(''Gaussian2DKernel'', None)],
     SImportFrom ''astropy.stats'' [(''gaussian_fwhm_to_sigma'', None)],
     SAssign [EName ''sigma'']
       (EBinOp (EConst (CFloat ''2.0'')) BMult (EName ''gaussian_fwhm_to_sigma'')),
     SAssign [EName ''kernel'']
       (ECall (EName ''Gaussian2DKernel'') [EName ''sigma'']
          [(''x_size'', EConst (CInt 5)), (''y_size'', EConst (CInt 5))]),
     SExpr (ECall (EAttribute (EName ''kernel'') ''normalize'') [] []),
     SAssign [EName ''ssegm'']
       (ECall (EName ''detect_sources'') [EName ''data'', EName ''threshold'', EName ''npixels'']
          [(''filter_kernel'', EName ''kernel'')])]"

(* unnamed/part_000, line 1273:
     fig, (ax1, ax2) = plt.subplots(1, 2, figsize=(10, 8))
     ax1.imshow(segm, cmap=segm.cmap())
     lbl1 = ax1.set_title('Original Data')
     ax2.imshow(ssegm, cmap=ssegm.cmap())
     lbl2 = ax2.set_title('Smoothed Data')
*)
definition photutils_L1273 :: cell where
  "photutils_L1273 =
    [SAssign [ETuple [EName ''fig'', ETuple [EName ''ax1'', EName ''ax2'']]]
       (ECall (EAttribute (EName ''plt'') ''subplots'') [EConst (CInt 1), EConst (CInt 2)]
          [(''figsize'', ETuple [EConst (CInt 10), EConst (CInt 8)])]),
     SExpr
       (ECall (EAttribute (EName ''ax1'') ''imshow'') [EName ''segm'']
          [(''cmap'', ECall (EAttribute (EName ''segm'') ''cmap'') [] [])]),
     SAssign [EName ''lbl1'']
       (ECall (EAttribute (EName ''ax1'') ''set_title'') [EConst (CStr ''Original Data'')] []),
     SExpr
       (ECall (EAttribute (EName ''ax2'') ''imshow'') [EName ''ssegm'']
          [(''cmap'', ECall (EAttribute (EName ''ssegm'') ''cmap'') [] [])]),
     SAssign [EName ''lbl2'']
       (ECall (EAttribute (EName ''ax2'') ''set_title'') [EConst (CStr ''Smoothed Data'')] [])]"

(* unnamed/part_000, line 1304:
     from photutils import deblend_sources
     
     segm2 = deblend_sources(data, ssegm, npixels, filter_kernel=kernel,
                             contrast=0.001, nlevels=32)
     
     fig, (ax1, ax2, ax3) = plt.subplots(1, 3, figsize=(15, 8))
     ax1.imshow(data, norm=norm)
     ax1.set_title('Data')
     ax2.imshow(ssegm, cmap=ssegm.cmap())
     ax2.set_title('Original Segmentation Image')
     ax3.imshow(segm2, cmap=segm2.cmap())
     ax3.set_title('Deblended Segmentation Image')
     
     print('Found {0} sources'.format(segm2.max))
*)
definition photutils_L1304 :: cell where
  "photutils_L1304 =
    [SImportFrom ''photutils'' [(''deblend_sources'', None)],
     SAssign [EName ''segm2'']
       (ECall (EName ''deblend_sources'') [EName ''data'', EName ''ssegm'', EName ''npixels'']
          [(''filter_kernel'', EName ''kernel''), (''contrast'', EConst (CFloat ''0.001'')),
           (''nlevels'', EConst (CInt 32))]),
     SAssign [ETuple [EName ''fig'', ETuple [EName ''ax1'', EName ''ax2'', EName ''ax3'']]]
       (ECall (EAttribute (EName ''plt'') ''subplots'') [EConst (CInt 1), EConst (CInt 3)]
          [(''figsize'', ETuple [EConst (CInt 15), EConst (CInt 8)])]),
     SExpr
       (ECall (EAttribute (EName ''ax1'') ''imshow'') [EName ''data'']
          [(''norm'', EName ''norm'')]),
     SExpr (ECall (EAttribute (EName ''ax1'') ''set_title'') [EConst (CStr ''Data'')] []),
     SExpr
       (ECall (EAttribute (EName ''ax2'') ''imshow'') [EName ''ssegm'']
          [(''cmap'', ECall (EAttribute (EName ''ssegm'') ''cmap'') [] [])]),
     SExpr
       (ECall (EAttribute (EName ''ax2'') ''set_title'')
          [EConst (CStr ''Original Segmentation Image'')]
          []),
     SExpr
       (ECall (EAttribute (EName ''ax3'') ''imshow'') [EName ''segm2'']
          [(''cmap'', ECall (EAttribute (EName ''segm2'') ''cmap'') [] [])]),
     SExpr
       (ECall (EAttribute (EName ''ax3'') ''set_title'')
          [EConst (CStr ''Deblended Segmentation Image'')]
          []),
     SExpr
       (ECall (EName ''print'')
          [ECall (EAttribute (EConst (CStr ''Found {0} sources'')) ''format'')
             [EAttribute (EName ''segm2'') ''max'']
             []]
          [])]"

definition photutils_cells :: notebook where
  "photutils_cells =
    [photutils_L69, photutils_L113, photutils_L137, photutils_L157, photutils_L178,
     photutils_L201, photutils_L300, photutils_L313, photutils_L322, photutils_L338,
     photutils_L363, photutils_L384, photutils_L393, photutils_L413, photutils_L436,
     photutils_L462, photutils_L489, photutils_L532, photutils_L553, photutils_L570,
     photutils_L602, photutils_L620, photutils_L641, photutils_L669, photutils_L697,
     photutils_L732, photutils_L755, photutils_L782, photutils_L810, photutils_L828,
     photutils_L837, photutils_L854, photutils_L865, photutils_L874, photutils_L883,
     photutils_L917, photutils_L942, photutils_L955, photutils_L977, photutils_L993,
     photutils_L1043, photutils_L1065, photutils_L1092, photutils_L1113, photutils_L1130,
     photutils_L1147, photutils_L1182, photutils_L1208, photutils_L1229, photutils_L1257,
     photutils_L1273, photutils_L1304]"

section \<open>What a notebook contains\<close>

subsection \<open>Sub-expressions and nested statements\<close>

text \<open>
  \<open>subexprs e\<close> lists \<open>e\<close> and every expression inside it, in source order;
  \<open>flat_stmts s\<close> lists \<open>s\<close> and every statement nested in its bodies.
\<close>

fun subexprs :: "expr \<Rightarrow> expr list" where
  "subexprs (EConst c) = [EConst c]"
| "subexprs (EName x) = [EName x]"
| "subexprs (EAttribute e a) = EAttribute e a # subexprs e"
| "subexprs (ESubscript e i) = ESubscript e i # subexprs e @ subexprs i"
| "subexprs (ESlice lo hi st) =
     ESlice lo hi st # (case lo of None \<Rightarrow> [] | Some e \<Rightarrow> subexprs e)
       @ (case hi of None \<Rightarrow> [] | Some e \<Rightarrow> subexprs e)
       @ (case st of None \<Rightarrow> [] | Some e \<Rightarrow> subexprs e)"
| "subexprs (ECall f args kws) =
     ECall f args kws # subexprs f @ concat (map subexprs args)
       @ concat (map (\<lambda>kw. subexprs (snd kw)) kws)"
| "subexprs (EBinOp l op r) = EBinOp l op r # subexprs l @ subexprs r"
| "subexprs (EUnaryOp op e) = EUnaryOp op e # subexprs e"
| "subexprs (ECompare l rs) =
     ECompare l rs # subexprs l @ concat (map (\<lambda>r. subexprs (snd r)) rs)"
| "subexprs (EBoolOp op es) = EBoolOp op es # concat (map subexprs es)"
| "subexprs (ETuple es) = ETuple es # concat (map subexprs es)"
| "subexprs (EList es) = EList es # concat (map subexprs es)"
| "subexprs (EDict kvs) =
     EDict kvs # concat (map (\<lambda>kv. subexprs (fst kv) @ subexprs (snd kv)) kvs)"
| "subexprs (ESet es) = ESet es # concat (map subexprs es)"
| "subexprs (EStarred e) = EStarred e # subexprs e"
| "subexprs (EIfExp c a b) = EIfExp c a b # subexprs c @ subexprs a @ subexprs b"
| "subexprs (ELambda ps e) = ELambda ps e # subexprs e"
| "subexprs (EComp k es gens) =
     EComp k es gens # concat (map subexprs es)
       @ concat (map (\<lambda>g. subexprs (fst g) @ subexprs (fst (snd g))
                          @ concat (map subexprs (snd (snd g)))) gens)"
| "subexprs (EAwait e) = EAwait e # subexprs e"
| "subexprs (EYield eo) = EYield eo # (case eo of None \<Rightarrow> [] | Some e \<Rightarrow> subexprs e)"
| "subexprs (EYieldFrom e) = EYieldFrom e # subexprs e"

fun flat_stmts :: "stmt \<Rightarrow> stmt list" where
  "flat_stmts (SIf c a b) = SIf c a b # concat (map flat_stmts a) @ concat (map flat_stmts b)"
| "flat_stmts (SFor t i b e) =
     SFor t i b e # concat (map flat_stmts b) @ concat (map flat_stmts e)"
| "flat_stmts (SWhile c b e) =
     SWhile c b e # concat (map flat_stmts b) @ concat (map flat_stmts e)"
| "flat_stmts (SWith items b) = SWith items b # concat (map flat_stmts b)"
| "flat_stmts (STry b hs e f) =
     STry b hs e f # concat (map flat_stmts b)
       @ concat (map (\<lambda>h. concat (map flat_stmts (snd h))) hs)
       @ concat (map flat_stmts e) @ concat (map flat_stmts f)"
| "flat_stmts (SFunctionDef n ps b) = SFunctionDef n ps b # concat (map flat_stmts b)"
| "flat_stmts (SClassDef n bases b) = SClassDef n bases b # concat (map flat_stmts b)"
| "flat_stmts (SAsyncFunctionDef n ps b) =
     SAsyncFunctionDef n ps b # concat (map flat_stmts b)"
| "flat_stmts (SAsyncFor t i b e) =
     SAsyncFor t i b e # concat (map flat_stmts b) @ concat (map flat_stmts e)"
| "flat_stmts (SAsyncWith items b) = SAsyncWith items b # concat (map flat_stmts b)"
| "flat_stmts s = [s]"

fun opt_list :: "'a option \<Rightarrow> 'a list" where
  "opt_list None = []"
| "opt_list (Some x) = [x]"

text \<open>The expressions a statement holds itself (not those of its nested statements).\<close>

fun stmt_exprs :: "stmt \<Rightarrow> expr list" where
  "stmt_exprs (SAssign ts v) = ts @ [v]"
| "stmt_exprs (SAugAssign t op v) = [t, v]"
| "stmt_exprs (SExpr e) = [e]"
| "stmt_exprs (SDelete es) = es"
| "stmt_exprs (SAssert e) = [e]"
| "stmt_exprs (SRaise eo) = opt_list eo"
| "stmt_exprs (SReturn eo) = opt_list eo"
| "stmt_exprs (SIf c a b) = [c]"
| "stmt_exprs (SFor t i b e) = [t, i]"
| "stmt_exprs (SWhile c b e) = [c]"
| "stmt_exprs (SWith items b) = concat (map (\<lambda>it. fst it # opt_list (snd it)) items)"
| "stmt_exprs (STry b hs e f) = concat (map (\<lambda>h. opt_list (fst h)) hs)"
| "stmt_exprs (SClassDef n bases b) = bases"
| "stmt_exprs (SAsyncFor t i b e) = [t, i]"
| "stmt_exprs (SAsyncWith items b) = concat (map (\<lambda>it. fst it # opt_list (snd it)) items)"
| "stmt_exprs (SHelp e) = [e]"
| "stmt_exprs s = []"

definition all_stmts :: "notebook \<Rightarrow> stmt list" where
  "all_stmts nb = concat (map flat_stmts (concat nb))"

definition all_exprs :: "notebook \<Rightarrow> expr list" where
  "all_exprs nb = concat (map subexprs (concat (map stmt_exprs (all_stmts nb))))"

subsection \<open>Control constructs\<close>

datatype construct =
    Loop | Conditional | FunctionDefinition | ClassDefinition | Coroutine
  | GlobalDeclaration | ContextManager | ExceptionHandling | ControlTransfer

text \<open>
  The control constructs a statement or an expression is an instance of. A
  comprehension is a loop, a conditional expression and a short-circuit \<open>and\<close>/\<open>or\<close> are
  conditionals, a \<open>lambda\<close> is a function definition, \<open>await\<close> and \<open>yield\<close> are
  coroutine control flow. Imports, assignments, expression statements, \<open>del\<close>, \<open>pass\<close>
  and IPython's lines are none.
\<close>

fun stmt_constructs :: "stmt \<Rightarrow> construct list" where
  "stmt_constructs (SIf c a b) = [Conditional]"
| "stmt_constructs (SAssert e) = [Conditional]"
| "stmt_constructs (SFor t i b e) = [Loop]"
| "stmt_constructs (SWhile c b e) = [Loop]"
| "stmt_constructs (SFunctionDef n ps b) = [FunctionDefinition]"
| "stmt_constructs (SClassDef n bases b) = [ClassDefinition]"
| "stmt_constructs (SAsyncFunctionDef n ps b) = [FunctionDefinition, Coroutine]"
| "stmt_constructs (SAsyncFor t i b e) = [Loop, Coroutine]"
| "stmt_constructs (SAsyncWith items b) = [ContextManager, Coroutine]"
| "stmt_constructs (SGlobal ns) = [GlobalDeclaration]"
| "stmt_constructs (SNonlocal ns) = [GlobalDeclaration]"
| "stmt_constructs (SWith items b) = [ContextManager]"
| "stmt_constructs (STry b hs e f) = [ExceptionHandling]"
| "stmt_constructs (SRaise eo) = [ExceptionHandling]"
| "stmt_constructs (SReturn eo) = [ControlTransfer]"
| "stmt_constructs SBreak = [ControlTransfer]"
| "stmt_constructs SContinue = [ControlTransfer]"
| "stmt_constructs s = []"

fun expr_constructs :: "expr \<Rightarrow> construct list" where
  "expr_constructs (EIfExp c a b) = [Conditional]"
| "expr_constructs (EBoolOp op es) = [Conditional]"
| "expr_constructs (EComp k es gens) = [Loop]"
| "expr_constructs (ELambda ps e) = [FunctionDefinition]"
| "expr_constructs (EAwait e) = [Coroutine]"
| "expr_constructs (EYield eo) = [Coroutine]"
| "expr_constructs (EYieldFrom e) = [Coroutine]"
| "expr_constructs e = []"

definition constructs :: "notebook \<Rightarrow> construct list" where
  "constructs nb =
     concat (map stmt_constructs (all_stmts nb)) @ concat (map expr_constructs (all_exprs nb))"

text \<open>The base classes of the classes a notebook defines: its inheritance hierarchy.\<close>

fun class_bases :: "stmt \<Rightarrow> (string \<times> expr list) list" where
  "class_bases (SClassDef n bases b) = [(n, bases)]"
| "class_bases s = []"

subsection \<open>Imports, bindings and calls\<close>

text \<open>The top-level package of a dotted module name: \<open>astropy\<close> for \<open>astropy.table\<close>.\<close>

definition module_root :: "string \<Rightarrow> string" where
  "module_root m = takeWhile (\<lambda>c. c \<noteq> CHR ''.'') m"

fun imported_modules :: "stmt \<Rightarrow> string list" where
  "imported_modules (SImport ns) = map fst ns"
| "imported_modules (SImportFrom m ns) = [m]"
| "imported_modules s = []"

text \<open>
  The names a statement binds in the notebook's namespace. \<open>import a.b\<close> binds \<open>a\<close>,
  \<open>import a.b as c\<close> binds \<open>c\<close>, \<open>from m import n\<close> binds \<open>n\<close>; an assignment binds
  the names among its targets (a subscript or attribute target changes an object and
  binds nothing).
\<close>

fun target_names :: "expr \<Rightarrow> string list" where
  "target_names (EName x) = [x]"
| "target_names (ETuple es) = concat (map target_names es)"
| "target_names (EList es) = concat (map target_names es)"
| "target_names (EStarred e) = target_names e"
| "target_names e = []"

fun alias_or :: "string \<Rightarrow> string option \<Rightarrow> string" where
  "alias_or n None = n"
| "alias_or n (Some a) = a"

fun bound_names :: "stmt \<Rightarrow> string list" where
  "bound_names (SImport ns) = map (\<lambda>n. alias_or (module_root (fst n)) (snd n)) ns"
| "bound_names (SImportFrom m ns) = map (\<lambda>n. alias_or (fst n) (snd n)) ns"
| "bound_names (SAssign ts v) = concat (map target_names ts)"
| "bound_names (SAugAssign t op v) = target_names t"
| "bound_names (SFor t i b e) = target_names t"
| "bound_names (SAsyncFor t i b e) = target_names t"
| "bound_names (SWith items b) = concat (map (\<lambda>it. concat (map target_names (opt_list (snd it)))) items)"
| "bound_names (SAsyncWith items b) = concat (map (\<lambda>it. concat (map target_names (opt_list (snd it)))) items)"
| "bound_names (SFunctionDef n ps b) = [n]"
| "bound_names (SAsyncFunctionDef n ps b) = [n]"
| "bound_names (SClassDef n bases b) = [n]"
| "bound_names s = []"

fun defined_names :: "stmt \<Rightarrow> string list" where
  "defined_names (SFunctionDef n ps b) = [n]"
| "defined_names (SAsyncFunctionDef n ps b) = [n]"
| "defined_names (SClassDef n bases b) = [n]"
| "defined_names s = []"

fun name_of :: "expr \<Rightarrow> string list" where
  "name_of (EName x) = [x]"
| "name_of e = []"

definition used_names :: "notebook \<Rightarrow> string list" where
  "used_names nb = concat (map name_of (all_exprs nb))"

definition free_names :: "notebook \<Rightarrow> string list" where
  "free_names nb =
     remdups (filter (\<lambda>x. x \<notin> set (concat (map bound_names (all_stmts nb)))) (used_names nb))"

text \<open>The statements of a notebook that bind a given name.\<close>

definition introductions :: "string \<Rightarrow> notebook \<Rightarrow> stmt list" where
  "introductions n nb = filter (\<lambda>s. n \<in> set (bound_names s)) (all_stmts nb)"

text \<open>An import from the two libraries the notebooks demonstrate.\<close>

fun library_import :: "stmt \<Rightarrow> bool" where
  "library_import (SImportFrom m ns) = (module_root m \<in> set [''astropy'', ''photutils''])"
| "library_import (SImport ns) =
     list_all (\<lambda>n. module_root (fst n) \<in> set [''astropy'', ''photutils'']) ns"
| "library_import s = False"


fun method_calls :: "expr \<Rightarrow> (expr \<times> string) list" where
  "method_calls (ECall (EAttribute r m) args kws) = [(r, m)]"
| "method_calls e = []"

definition receivers :: "string \<Rightarrow> notebook \<Rightarrow> expr list" where
  "receivers m nb =
     map fst (filter (\<lambda>c. snd c = m) (concat (map method_calls (all_exprs nb))))"


subsection \<open>Table input and output\<close>

datatype io_direction = Reads | Writes

datatype file_format = FITS | CSV | LaTeX | VOTable | ECSV | BasicASCII | OtherFormat string

text \<open>
  The format of a \<open>read\<close> or \<open>write\<close> call is the one its \<open>format=\<close> keyword names;
  without the keyword the library picks it from the file name, and the notebooks rely
  on that for \<open>.fits\<close> and \<open>.csv\<close> only. The format names are the library's:
  \<open>ascii.aastex\<close> and \<open>ascii.latex\<close> are its LaTeX table formats, \<open>ascii.ecsv\<close> is the
  enhanced CSV, \<open>ascii\<close> the basic delimited text format.
\<close>

definition format_named :: "string \<Rightarrow> file_format" where
  "format_named f =
     (if f = ''fits'' then FITS
      else if f = ''ascii.csv'' \<or> f = ''csv'' then CSV
      else if f = ''ascii.aastex'' \<or> f = ''ascii.latex'' \<or> f = ''latex'' then LaTeX
      else if f = ''votable'' then VOTable
      else if f = ''ascii.ecsv'' then ECSV
      else if f = ''ascii'' then BasicASCII
      else OtherFormat f)"

definition has_suffix :: "string \<Rightarrow> string \<Rightarrow> bool" where
  "has_suffix ext path =
     (length ext \<le> length path \<and> drop (length path - length ext) path = ext)"

definition format_of_path :: "string \<Rightarrow> file_format" where
  "format_of_path path =
     (if has_suffix ''.fits'' path then FITS
      else if has_suffix ''.csv'' path then CSV
      else OtherFormat path)"

fun keyword_string :: "string \<Rightarrow> (string \<times> expr) list \<Rightarrow> string option" where
  "keyword_string k [] = None"
| "keyword_string k ((k', EConst (CStr v)) # kws) =
     (if k' = k then Some v else keyword_string k kws)"
| "keyword_string k (kw # kws) = keyword_string k kws"

definition call_format :: "string \<Rightarrow> (string \<times> expr) list \<Rightarrow> file_format" where
  "call_format path kws =
     (case keyword_string ''format'' kws of
        Some f \<Rightarrow> format_named f
      | None \<Rightarrow> format_of_path path)"

text \<open>
  A table read or written: a call of the method \<open>read\<close> or \<open>write\<close> whose first
  argument is the file name.
\<close>

fun table_io :: "expr \<Rightarrow> (io_direction \<times> file_format) list" where
  "table_io (ECall (EAttribute r m) (EConst (CStr path) # args) kws) =
     (if m = ''read'' then [(Reads, call_format path kws)]
      else if m = ''write'' then [(Writes, call_format path kws)]
      else [])"
| "table_io e = []"

definition formats :: "io_direction \<Rightarrow> notebook \<Rightarrow> file_format list" where
  "formats d nb =
     remdups (map snd (filter (\<lambda>io. fst io = d) (concat (map table_io (all_exprs nb)))))"

subsection \<open>Values the notebooks compute\<close>

datatype operator = Binary binop | Unary unaryop | Comparison cmpop | Boolean boolop

fun operators :: "expr \<Rightarrow> operator list" where
  "operators (EBinOp l op r) = [Binary op]"
| "operators (EUnaryOp op e) = [Unary op]"
| "operators (ECompare l rs) = map (\<lambda>r. Comparison (fst r)) rs"
| "operators (EBoolOp op es) = [Boolean op]"
| "operators e = []"

text \<open>
  An expression is \<open>direct\<close> when no operator of the notebook's stands between the
  library and the value: a literal (a negative number is one), a name, the result of
  a call, an attribute or an element of such a value, or a list or tuple of direct
  values. What is inside a call's arguments does not count: the value is what the
  library returned.
\<close>

fun direct :: "expr \<Rightarrow> bool" where
  "direct (EConst c) = True"
| "direct (EName x) = True"
| "direct (EAttribute e a) = True"
| "direct (ESubscript e i) = True"
| "direct (ECall f args kws) = True"
| "direct (EUnaryOp USub (EConst c)) = True"
| "direct (EList es) = list_all direct es"
| "direct (ETuple es) = list_all direct es"
| "direct e = False"

fun assignment :: "stmt \<Rightarrow> (expr list \<times> expr) list" where
  "assignment (SAssign ts v) = [(ts, v)]"
| "assignment s = []"

definition assignments :: "notebook \<Rightarrow> (expr list \<times> expr) list" where
  "assignments nb = concat (map assignment (all_stmts nb))"

definition authored :: "notebook \<Rightarrow> (expr list \<times> expr) list" where
  "authored nb = filter (\<lambda>a. \<not> direct (snd a)) (assignments nb)"

subsection \<open>Concurrency\<close>

text \<open>
  The modules through which Python code starts, schedules, synchronises or cancels
  concurrent work: the standard library's threads, processes, executors, event loop,
  schedulers, queues, signals and I/O multiplexing.
\<close>

definition concurrency_modules :: "string list" where
  "concurrency_modules =
     [''threading'', ''_thread'', ''multiprocessing'', ''concurrent'', ''asyncio'',
      ''subprocess'', ''sched'', ''queue'', ''signal'', ''select'', ''selectors'']"

fun shell_line :: "stmt \<Rightarrow> string list" where
  "shell_line (SShell c) = [c]"
| "shell_line s = []"

text \<open>A shell line that ends in \<open>&\<close> would leave its command running in the background.\<close>

definition background_job :: "string \<Rightarrow> bool" where
  "background_job c = (c \<noteq> [] \<and> last c = CHR ''&'')"

definition operations :: "string list" where
  "operations =
     [''read'', ''write'', ''vstack'', ''hstack'', ''join'', ''aperture_photometry'',
      ''detect_sources'', ''deblend_sources'']"

subsection \<open>The two notebooks together\<close>

definition notebooks :: notebook where
  "notebooks = reading_data_cells @ photutils_cells"

text \<open>The statements that bind one of the names of a list, and the uses of such names.\<close>

definition binders :: "string list \<Rightarrow> notebook \<Rightarrow> stmt list" where
  "binders ns nb = filter (\<lambda>s. list_ex (\<lambda>n. n \<in> set ns) (bound_names s)) (all_stmts nb)"

definition method_uses :: "string list \<Rightarrow> notebook \<Rightarrow> (expr \<times> string) list" where
  "method_uses ms nb =
     filter (\<lambda>c. snd c \<in> set ms) (concat (map method_calls (all_exprs nb)))"

fun magic_line :: "stmt \<Rightarrow> (string \<times> string) list" where
  "magic_line (SMagic n a) = [(n, a)]"
| "magic_line s = []"

text \<open>What an assignment's value is a call of.\<close>

fun callee :: "expr \<Rightarrow> expr list" where
  "callee (ECall f args kws) = [f]"
| "callee e = []"

subsection \<open>State\<close>

text \<open>
  The state of a notebook is its top-level namespace. A name is rebound when more
  than one statement binds it; an object is changed in place by an assignment to one
  of its elements or attributes (\<open>data2[y, x] = 100.\<close>, \<open>tbl['age'].format = ...\<close>).
\<close>

fun store_target :: "expr \<Rightarrow> bool" where
  "store_target (ESubscript e i) = True"
| "store_target (EAttribute e a) = True"
| "store_target e = False"

fun flat_targets :: "expr \<Rightarrow> expr list" where
  "flat_targets (ETuple es) = concat (map flat_targets es)"
| "flat_targets (EList es) = concat (map flat_targets es)"
| "flat_targets (EStarred e) = flat_targets e"
| "flat_targets e = [e]"

fun in_place_targets :: "stmt \<Rightarrow> expr list" where
  "in_place_targets (SAssign ts v) = filter store_target (concat (map flat_targets ts))"
| "in_place_targets (SAugAssign t op v) = filter store_target [t]"
| "in_place_targets (SDelete es) = filter store_target es"
| "in_place_targets s = []"

definition in_place_updates :: "notebook \<Rightarrow> expr list" where
  "in_place_updates nb = concat (map in_place_targets (all_stmts nb))"

text \<open>The name at the root of an expression: \<open>mpl\<close> for \<open>mpl.rcParams['image.cmap']\<close>.\<close>

fun head_name :: "expr \<Rightarrow> string list" where
  "head_name (EName x) = [x]"
| "head_name (EAttribute e a) = head_name e"
| "head_name (ESubscript e i) = head_name e"
| "head_name (ECall f args kws) = head_name f"
| "head_name e = []"

fun duplicates :: "string list \<Rightarrow> string list" where
  "duplicates [] = []"
| "duplicates (x # xs) = (if x \<in> set xs then x # duplicates xs else duplicates xs)"

definition bindings :: "notebook \<Rightarrow> string list" where
  "bindings nb = concat (map bound_names (all_stmts nb))"

definition rebound_names :: "notebook \<Rightarrow> string list" where
  "rebound_names nb = remdups (duplicates (bindings nb))"

text \<open>
  The kinds of statement of straight-line code: an import, an assignment, a call made
  as a statement, an expression whose value the notebook displays, and IPython's
  lines. Every other statement form is \<open>OtherStmt\<close>.
\<close>

datatype stmt_kind = ImportStmt | AssignStmt | CallStmt | DisplayStmt | IPythonLine | OtherStmt

fun kind_of :: "stmt \<Rightarrow> stmt_kind" where
  "kind_of (SImport ns) = ImportStmt"
| "kind_of (SImportFrom m ns) = ImportStmt"
| "kind_of (SAssign ts v) = AssignStmt"
| "kind_of (SExpr (ECall f args kws)) = CallStmt"
| "kind_of (SExpr e) = DisplayStmt"
| "kind_of (SMagic n a) = IPythonLine"
| "kind_of (SShell c) = IPythonLine"
| "kind_of (SHelp e) = IPythonLine"
| "kind_of s = OtherStmt"

subsection \<open>Background estimation\<close>
















subsection \<open>Capabilities a cell demonstrates\<close>












section \<open>Properties of the notebooks\<close>

subsection \<open>Straight-line cells and their state\<close>

lemma reading_data_no_constructs: "constructs reading_data_cells = []"
  by code_simp

lemma photutils_no_constructs: "constructs photutils_cells = []"
  by code_simp

lemma no_class_bases: "concat (map class_bases (all_stmts notebooks)) = []"
  by code_simp

lemma nothing_defined: "concat (map defined_names (all_stmts notebooks)) = []"
  by code_simp

lemma statement_kinds:
  "map (\<lambda>k. length (filter (\<lambda>s. kind_of s = k) (all_stmts notebooks)))
     [ImportStmt, AssignStmt, CallStmt, DisplayStmt, IPythonLine, OtherStmt] =
     [29, 123, 52, 55, 9, 0]"
  by code_simp

lemma reading_data_rebound: "rebound_names reading_data_cells = [''tbl'', ''tbl_a'', ''tbl_b'']"
  by code_simp

lemma photutils_rebound:
  "rebound_names photutils_cells =
     [''x'', ''y'', ''coord'', ''positions'', ''radius'', ''sky_apers'', ''phot'', ''lbl1'',
      ''lbl2'', ''fig'', ''ax1'', ''ax2'']"
  by code_simp

lemma phot_bound: "length (binders [''phot''] photutils_cells) = 12"
  by code_simp

lemma in_place_counts:
  "length (in_place_updates reading_data_cells) = 20
   \<and> length (in_place_updates photutils_cells) = 14"
  by code_simp

lemma in_place_total: "length (in_place_updates notebooks) = 34"
  using in_place_counts by (simp add: notebooks_def in_place_updates_def all_stmts_def)

lemma updated_objects:
  "remdups (concat (map head_name (in_place_updates notebooks))) =
     [''tbl'', ''qtbl'', ''tbl_a'', ''tbl_b'', ''mpl'', ''sci_hdulist'', ''data2'', ''mask'',
        ''phot'']"
  by code_simp

lemma row_and_column_methods:
  "method_uses [''add_row'', ''rename_column''] notebooks =
     [(EName ''tbl'', ''add_row''), (EName ''tbl_b'', ''add_row''),
      (EName ''tbl_b'', ''add_row''), (EName ''tbl_b'', ''add_row''),
      (EName ''tbl_b'', ''add_row''), (EName ''tbl_b'', ''add_row''),
      (EName ''tbl_b'', ''add_row''), (EName ''phot'', ''rename_column''),
      (EName ''phot'', ''rename_column'')]"
  by code_simp

lemma bad_pixel_update:
  "in_place_updates [photutils_L669] =
     [ESubscript (EName ''data2'') (ETuple [EName ''y'', EName ''x''])]"
  by code_simp

lemma not_only_assignments_and_calls:
  "\<not> list_all (\<lambda>s. kind_of s \<in> set [AssignStmt, CallStmt]) (all_stmts notebooks)"
  by code_simp

text \<open>
  Claim C9 as stated fails. It says that the repository's code has no global mutable
  state and that each cell is a sequence of assignments and calls. The notebooks keep
  their state in top-level names and change it: in the photutils notebook \<open>phot\<close>
  is bound by twelve statements; the cell at line 669 overwrites a pixel of the array
  \<open>data2\<close> in place (\<open>data2[y, x] = 100.\<close>); in all, 34 assignments store into an
  element or an attribute of an existing object. And the cells hold statements that
  are neither an assignment nor a call: imports, expressions put there to be
  displayed, and IPython lines.
\<close>

theorem notebooks_keep_mutable_state:
  "''phot'' \<in> set (rebound_names photutils_cells)
   \<and> length (binders [''phot''] photutils_cells) = 12
   \<and> photutils_L669 \<in> set photutils_cells
   \<and> in_place_updates [photutils_L669] =
       [ESubscript (EName ''data2'') (ETuple [EName ''y'', EName ''x''])]
   \<and> length (in_place_updates notebooks) = 34
   \<and> \<not> (rebound_names reading_data_cells = [] \<and> rebound_names photutils_cells = []
         \<and> in_place_updates notebooks = [])
   \<and> \<not> list_all (\<lambda>s. kind_of s \<in> set [AssignStmt, CallStmt]) (all_stmts notebooks)"
proof -
  have "photutils_L669 \<in> set photutils_cells"
    by (simp add: photutils_cells_def)
  moreover have "in_place_updates notebooks \<noteq> []"
    using in_place_total by auto
  ultimately show ?thesis
    using not_only_assignments_and_calls
    by (simp add: photutils_rebound phot_bound bad_pixel_update in_place_total)
qed

text \<open>
  Claim C9, amended. Every code cell of both notebooks is straight-line code: no
  statement and no expression, at any nesting depth, is a loop, a conditional, a
  function or class definition, a \<open>global\<close>/\<open>nonlocal\<close> declaration, a context
  manager, exception handling, a control transfer or coroutine control flow; no class
  is defined, so there is no inheritance hierarchy and no method of the repository's
  own to dispatch to. The 268 statements are 29 imports, 123 assignments, 52 calls,
  55 displayed expressions and 9 IPython lines. The notebooks do keep global mutable
  state, the top-level namespace: \<open>tbl\<close>, \<open>tbl_a\<close> and \<open>tbl_b\<close> are rebound in
  \<open>Reading-data.ipynb\<close> and twelve names in the photutils notebook; 34 assignments
  (20 and 14) change in place an object reached from \<open>tbl\<close>, \<open>qtbl\<close>, \<open>tbl_a\<close>,
  \<open>tbl_b\<close>, \<open>mpl\<close>, \<open>sci_hdulist\<close>, \<open>data2\<close>, \<open>mask\<close> or \<open>phot\<close>; and tables are
  changed through \<open>add_row\<close> (seven calls) and \<open>rename_column\<close> (two).
\<close>

theorem notebooks_straight_line:
  "constructs reading_data_cells = [] \<and> constructs photutils_cells = []
   \<and> concat (map class_bases (all_stmts notebooks)) = []
   \<and> concat (map defined_names (all_stmts notebooks)) = []
   \<and> map (\<lambda>k. length (filter (\<lambda>s. kind_of s = k) (all_stmts notebooks)))
        [ImportStmt, AssignStmt, CallStmt, DisplayStmt, IPythonLine, OtherStmt] =
       [29, 123, 52, 55, 9, 0]
   \<and> rebound_names reading_data_cells = [''tbl'', ''tbl_a'', ''tbl_b'']
   \<and> rebound_names photutils_cells =
       [''x'', ''y'', ''coord'', ''positions'', ''radius'', ''sky_apers'', ''phot'', ''lbl1'',
        ''lbl2'', ''fig'', ''ax1'', ''ax2'']
   \<and> length (in_place_updates reading_data_cells) = 20
   \<and> length (in_place_updates photutils_cells) = 14
   \<and> remdups (concat (map head_name (in_place_updates notebooks))) =
       [''tbl'', ''qtbl'', ''tbl_a'', ''tbl_b'', ''mpl'', ''sci_hdulist'', ''data2'', ''mask'',
        ''phot'']
   \<and> map snd (method_uses [''add_row'', ''rename_column''] notebooks) =
       [''add_row'', ''add_row'', ''add_row'', ''add_row'', ''add_row'', ''add_row'',
        ''add_row'', ''rename_column'', ''rename_column'']"
  using reading_data_no_constructs photutils_no_constructs no_class_bases nothing_defined
    statement_kinds reading_data_rebound photutils_rebound in_place_counts updated_objects
  by (simp add: row_and_column_methods)

subsection \<open>No concurrency\<close>

lemma imported_roots:
  "remdups (map module_root (concat (map imported_modules (all_stmts notebooks)))) =
     [''astroquery'', ''numpy'', ''matplotlib'', ''astropy'', ''photutils'']"
  by code_simp

lemma reading_data_free_names: "free_names reading_data_cells = [''type'', ''len'', ''print'']"
  by code_simp

lemma photutils_free_names: "free_names photutils_cells = [''bool'', ''print'']"
  by code_simp

lemma shell_lines:
  "concat (map shell_line (all_stmts notebooks)) =
     [''ls -l example_table_data*'', ''head -n 8 data/example_table_data.csv'',
      ''head -n 8 data/example_table_data.tex'', ''head -n 8 data/example_table_data.txt'',
      ''head -n 30 test.vot'', ''cat my_photometry.txt'']"
  by code_simp

lemma magic_lines:
  "concat (map magic_line (all_stmts notebooks)) =
     [(''matplotlib'', ''inline''), (''matplotlib'', ''inline'')]"
  by code_simp

text \<open>
  Claim C10. No step of either notebook reaches a concurrency, scheduling or
  cancellation primitive. Every module the notebooks import belongs to numpy,
  matplotlib, astropy, astroquery or photutils, none of them a concurrency module; no
  statement or expression is coroutine control flow (no \<open>async\<close>, \<open>await\<close> or
  \<open>yield\<close>); the only names used without being bound by an import or an assignment of
  the notebook are the builtins \<open>type\<close>, \<open>len\<close>, \<open>print\<close> and \<open>bool\<close>, so nothing
  is called that did not come from those imports; the only magic is
  \<open>%matplotlib inline\<close>; and no shell line leaves a job in the background. What is
  left is the cells' statements, one after the other.
\<close>

theorem notebooks_no_concurrency:
  "list_all (\<lambda>m. m \<notin> set concurrency_modules)
     (remdups (map module_root (concat (map imported_modules (all_stmts notebooks)))))
   \<and> Coroutine \<notin> set (constructs reading_data_cells)
   \<and> Coroutine \<notin> set (constructs photutils_cells)
   \<and> free_names reading_data_cells = [''type'', ''len'', ''print'']
   \<and> free_names photutils_cells = [''bool'', ''print'']
   \<and> concat (map magic_line (all_stmts notebooks)) =
       [(''matplotlib'', ''inline''), (''matplotlib'', ''inline'')]
   \<and> list_all (\<lambda>c. \<not> background_job c) (concat (map shell_line (all_stmts notebooks)))"
  by (simp add: imported_roots reading_data_no_constructs photutils_no_constructs
      reading_data_free_names photutils_free_names magic_lines shell_lines
      concurrency_modules_def background_job_def)

subsection \<open>The operations are the libraries'\<close>

lemma operation_binders:
  "binders operations notebooks =
     [SImportFrom ''astropy.table'' [(''vstack'', None), (''hstack'', None), (''join'', None)],
      SImportFrom ''photutils'' [(''aperture_photometry'', None)],
      SImportFrom ''photutils'' [(''detect_sources'', None)],
      SImportFrom ''photutils'' [(''deblend_sources'', None)]]"
  by code_simp

lemma read_write_never_names:
  "filter (\<lambda>x. x \<in> set [''read'', ''write'']) (used_names notebooks) = []"
  by code_simp

lemma read_write_calls:
  "method_uses [''read'', ''write''] notebooks =
     [(EName ''Table'', ''read''), (EName ''Table'', ''read''), (EName ''Table'', ''read''),
      (EName ''Table'', ''read''), (EName ''tbl1'', ''write''), (EName ''tbl1'', ''write''),
      (EName ''tbl1'', ''write''), (EName ''tbl1'', ''write''), (EName ''tbl1'', ''write''),
      (EName ''tbl1'', ''write''), (EName ''sdss_data'', ''write''),
      (EName ''Table'', ''read''), (EName ''Table'', ''read''), (EName ''phot'', ''write''),
      (EName ''QTable'', ''read'')]"
  by code_simp

text \<open>
  Where the receivers of \<open>read\<close> and \<open>write\<close> come from: \<open>Table\<close> and \<open>QTable\<close> are
  imported from \<open>astropy.table\<close>; \<open>tbl1\<close> is what \<open>Table.read\<close> returned, \<open>phot\<close> what
  \<open>aperture_photometry\<close> returned, and \<open>sdss_data\<close> what \<open>SDSS.query_region\<close> of
  \<open>astroquery.sdss\<close> returned.
\<close>

lemma receiver_origins:
  "binders [''Table'', ''QTable'', ''SDSS''] notebooks =
     [SImportFrom ''astropy.table'' [(''Table'', None), (''QTable'', None)],
      SImportFrom ''astroquery.sdss'' [(''SDSS'', None)],
      SImportFrom ''astropy.table'' [(''QTable'', None)]]
   \<and> remdups (map (\<lambda>a. (fst a, callee (snd a)))
         (concat (map assignment (binders [''tbl1'', ''sdss_data'', ''phot''] notebooks)))) =
     [([EName ''tbl1''], [EAttribute (EName ''Table'') ''read'']),
      ([EName ''sdss_data''], [EAttribute (EName ''SDSS'') ''query_region'']),
      ([EName ''phot''], [EName ''aperture_photometry''])]"
  by code_simp

text \<open>
  Claim C5. Each of \<open>read\<close>, \<open>write\<close>, \<open>vstack\<close>, \<open>hstack\<close>, \<open>join\<close>,
  \<open>aperture_photometry\<close>, \<open>detect_sources\<close> and \<open>deblend_sources\<close> is a library
  operation: every statement of the notebooks that binds one of these names is an
  import from astropy or photutils; those imports bind \<open>vstack\<close>, \<open>hstack\<close>, \<open>join\<close>
  (from \<open>astropy.table\<close>), \<open>aperture_photometry\<close>, \<open>detect_sources\<close> and
  \<open>deblend_sources\<close> (from \<open>photutils\<close>), each once; \<open>read\<close> and \<open>write\<close> are never
  bound and never used as names, they occur only as methods, called on \<open>Table\<close>,
  \<open>QTable\<close>, \<open>tbl1\<close>, \<open>sdss_data\<close> and \<open>phot\<close>; and the notebooks define no function
  and no class at all.
\<close>

theorem operations_are_library_calls:
  "list_all library_import (binders operations notebooks)
   \<and> concat (map bound_names (binders operations notebooks)) =
       [''vstack'', ''hstack'', ''join'', ''aperture_photometry'', ''detect_sources'',
        ''deblend_sources'']
   \<and> concat (map imported_modules (binders operations notebooks)) =
       [''astropy.table'', ''photutils'', ''photutils'', ''photutils'']
   \<and> concat (map defined_names (all_stmts notebooks)) = []
   \<and> filter (\<lambda>x. x \<in> set [''read'', ''write'']) (used_names notebooks) = []
   \<and> remdups (map fst (method_uses [''read'', ''write''] notebooks)) =
       [EName ''tbl1'', EName ''sdss_data'', EName ''Table'', EName ''phot'', EName ''QTable'']"
proof -
  have "list_all library_import (binders operations notebooks)"
    by (simp add: operation_binders module_root_def)
  moreover have "concat (map bound_names (binders operations notebooks)) =
       [''vstack'', ''hstack'', ''join'', ''aperture_photometry'', ''detect_sources'',
        ''deblend_sources'']"
    by (simp add: operation_binders)
  moreover have "concat (map imported_modules (binders operations notebooks)) =
       [''astropy.table'', ''photutils'', ''photutils'', ''photutils'']"
    by (simp add: operation_binders)
  moreover have "remdups (map fst (method_uses [''read'', ''write''] notebooks)) =
       [EName ''tbl1'', EName ''sdss_data'', EName ''Table'', EName ''phot'', EName ''QTable'']"
    by (simp add: read_write_calls)
  ultimately show ?thesis
    using nothing_defined read_write_never_names by blast
qed

subsection \<open>The capabilities the notebooks demonstrate\<close>
















subsection \<open>Formats read and formats written\<close>

lemma table_io_calls:
  "concat (map table_io (all_exprs notebooks)) =
     [(Reads, FITS), (Reads, CSV), (Reads, LaTeX), (Reads, BasicASCII), (Writes, FITS),
      (Writes, VOTable), (Writes, BasicASCII), (Writes, CSV), (Writes, BasicASCII),
      (Writes, ECSV), (Writes, FITS), (Reads, FITS), (Reads, FITS), (Writes, ECSV),
      (Reads, ECSV)]"
  by code_simp

text \<open>
  Claim C2 as stated fails. It says that every format the notebooks read is a format
  they write. The LaTeX table \<open>data/example_table_data.tex\<close> is read with
  \<open>format='ascii.aastex'\<close>, and no \<open>write\<close> call of either notebook produces LaTeX.
\<close>

theorem latex_read_never_written:
  "LaTeX \<in> set (formats Reads notebooks) \<and> LaTeX \<notin> set (formats Writes notebooks)
   \<and> \<not> list_all (\<lambda>f. f \<in> set (formats Writes notebooks)) (formats Reads notebooks)"
  by (simp add: formats_def table_io_calls)

text \<open>
  Claim C2, amended. The notebooks read tables in FITS, CSV, LaTeX, delimited ASCII
  and ECSV, and write them in FITS, CSV, VOTable, delimited ASCII and ECSV. Every
  format read other than LaTeX is also written; LaTeX is only read, and VOTable is
  only written.
\<close>

theorem formats_read_and_written:
  "set (formats Reads notebooks) = {FITS, CSV, LaTeX, BasicASCII, ECSV}
   \<and> set (formats Writes notebooks) = {FITS, CSV, VOTable, BasicASCII, ECSV}
   \<and> list_all (\<lambda>f. f \<in> set (formats Writes notebooks))
        (filter (\<lambda>f. f \<noteq> LaTeX) (formats Reads notebooks))"
  by (auto simp: formats_def table_io_calls)

subsection \<open>Arithmetic the notebooks author\<close>

lemma reading_data_authored:
  "authored reading_data_cells =
     [([EName ''mask''],
       EBinOp
         (ECompare (ESubscript (EName ''tbl'') (EConst (CStr ''age'')))
            [(CmpLt, EConst (CInt 75))])
         BBitAnd
         (ECall (EAttribute (EName ''np'') ''isfinite'')
            [ESubscript (EName ''tbl'') (EConst (CStr ''age''))] [])),
      ([ESubscript (EName ''tbl'') (EConst (CStr ''age''))],
       EBinOp
         (EList
            [EAttribute (EName ''np'') ''nan'', EConst (CInt 78), EConst (CInt 77),
             EConst (CInt 74), EConst (CInt 75), EConst (CInt 74)])
         BMult (EAttribute (EName ''u'') ''year'')),
      ([ESubscript (EName ''qtbl'') (EConst (CStr ''age''))],
       EBinOp
         (EList
            [EAttribute (EName ''np'') ''nan'', EConst (CInt 78), EConst (CInt 77),
             EConst (CInt 74), EConst (CInt 75), EConst (CInt 74)])
         BMult (EAttribute (EName ''u'') ''year'')),
      ([ESubscript (EName ''tbl_a'') (EConst (CStr ''ra''))],
       EBinOp
         (EList
            [EConst (CFloat ''213.913315''), EConst (CFloat ''78.6344670''),
             EConst (CFloat ''88.7929389'')])
         BMult (EAttribute (EName ''u'') ''deg'')),
      ([ESubscript (EName ''tbl_a'') (EConst (CStr ''dec''))],
       EBinOp
         (EList
            [EConst (CFloat ''19.1782489''), EUnaryOp USub (EConst (CFloat ''8.2016383'')),
             EConst (CFloat ''7.4070639'')])
         BMult (EAttribute (EName ''u'') ''deg'')),
      ([ESubscript (EName ''tbl_b'') (EConst (CStr ''time''))],
       EBinOp (EList []) BMult (EAttribute (EName ''u'') ''hour''))]"
  by code_simp

lemma photutils_authored:
  "authored photutils_cells =
     [([EName ''unit''],
       EBinOp (EAttribute (EName ''u'') ''electron'') BDiv (EAttribute (EName ''u'') ''s'')),
      ([EName ''snr''],
       EBinOp (ESubscript (EName ''phot'') (EConst (CStr ''aperture_sum''))) BDiv
         (ESubscript (EName ''phot'') (EConst (CStr ''aperture_sum_err'')))),
      ([EName ''abmag''],
       EBinOp
         (EBinOp (EUnaryOp USub (EConst (CFloat ''2.5''))) BMult
            (ECall (EAttribute (EName ''np'') ''log10'')
               [EAttribute (ESubscript (EName ''phot'') (EConst (CStr ''aperture_sum'')))
                  ''value'']
               []))
         BAdd (EName ''f160w_zpt'')),
      ([EName ''radius''],
       EBinOp (EConst (CFloat ''5.'')) BMult (EAttribute (EName ''u'') ''pix'')),
      ([EName ''radius''],
       EBinOp (EConst (CFloat ''0.5'')) BMult (EAttribute (EName ''u'') ''arcsec'')),
      ([ESubscript (EName ''phot'') (EConst (CStr ''annulus_mean''))],
       EBinOp (ESubscript (EName ''phot'') (EConst (CStr ''annulus_sum''))) BDiv
         (ECall (EAttribute (EName ''bkg_aper'') ''area'') [] [])),
      ([ESubscript (EName ''phot'') (EConst (CStr ''aperture_bkg''))],
       EBinOp (ESubscript (EName ''phot'') (EConst (CStr ''annulus_mean''))) BMult
         (ECall (EAttribute (EName ''aper'') ''area'') [] [])),
      ([EName ''flux_bkgsub''],
       EBinOp (ESubscript (EName ''phot'') (EConst (CStr ''aperture_sum''))) BSub
         (ESubscript (EName ''phot'') (EConst (CStr ''aperture_bkg'')))),
      ([EName ''threshold''],
       EBinOp (EName ''bkg'') BAdd (EBinOp (EName ''nsigma'') BMult (EName ''error''))),
      ([EName ''sigma''],
       EBinOp (EConst (CFloat ''2.0'')) BMult (EName ''gaussian_fwhm_to_sigma''))]"
  by code_simp

lemma notebooks_operators:
  "remdups (concat (map operators (all_exprs notebooks))) =
     [Binary BBitAnd, Comparison CmpLt, Binary BPow, Unary USub, Binary BDiv, Binary BSub,
      Binary BAdd, Binary BMult]"
  by code_simp

lemma assignment_counts:
  "length (assignments reading_data_cells) = 41 \<and> length (assignments photutils_cells) = 82"
  by code_simp

text \<open>
  Claim C1 as stated fails. It says that every derived quantity of the notebooks is
  the unmodified result of a library invocation. The AB magnitude is not: the cell at
  line 755 of the photutils notebook assigns
  \<open>abmag = -2.5 * np.log10(phot['aperture_sum'].value) + f160w_zpt\<close>, which scales
  what \<open>np.log10\<close> returned by \<open>-2.5\<close> and adds the zero point \<open>25.9463\<close>.
\<close>

theorem abmag_not_a_library_result:
  "([EName ''abmag''],
    EBinOp
      (EBinOp (EUnaryOp USub (EConst (CFloat ''2.5''))) BMult
         (ECall (EAttribute (EName ''np'') ''log10'')
            [EAttribute (ESubscript (EName ''phot'') (EConst (CStr ''aperture_sum'')))
               ''value'']
            []))
      BAdd (EName ''f160w_zpt''))
     \<in> set (assignments [photutils_L755])
   \<and> photutils_L755 \<in> set photutils_cells
   \<and> \<not> direct
       (EBinOp
          (EBinOp (EUnaryOp USub (EConst (CFloat ''2.5''))) BMult
             (ECall (EAttribute (EName ''np'') ''log10'')
                [EAttribute (ESubscript (EName ''phot'') (EConst (CStr ''aperture_sum'')))
                   ''value'']
                []))
          BAdd (EName ''f160w_zpt''))
   \<and> \<not> list_all (\<lambda>a. direct (snd a)) (assignments photutils_cells)"
proof -
  have "authored photutils_cells \<noteq> []"
    by (simp add: photutils_authored)
  then have "\<not> list_all (\<lambda>a. direct (snd a)) (assignments photutils_cells)"
    by (auto simp: authored_def filter_empty_conv list_all_iff)
  moreover have "photutils_L755 \<in> set photutils_cells"
    by (simp add: photutils_cells_def)
  moreover have "([EName ''abmag''],
    EBinOp
      (EBinOp (EUnaryOp USub (EConst (CFloat ''2.5''))) BMult
         (ECall (EAttribute (EName ''np'') ''log10'')
            [EAttribute (ESubscript (EName ''phot'') (EConst (CStr ''aperture_sum'')))
               ''value'']
            []))
      BAdd (EName ''f160w_zpt''))
     \<in> set (assignments [photutils_L755])"
    by code_simp
  ultimately show ?thesis
    by simp
qed

text \<open>
  Claim C1, amended. The notebooks author no function, class, loop or conditional,
  but they do author arithmetic. Of their 123 assignments, sixteen compute their
  value with operators written in the notebook over library values and literals: in
  \<open>Reading-data.ipynb\<close> a boolean mask and five lists given a unit; in the photutils
  notebook \<open>unit\<close>, \<open>snr\<close>, \<open>abmag\<close>, \<open>radius\<close> (twice), \<open>phot['annulus_mean']\<close>,
  \<open>phot['aperture_bkg']\<close>, \<open>flux_bkgsub\<close>, \<open>threshold\<close> and \<open>sigma\<close>. The value of
  every other assignment is a literal, a name, or the unmodified result of a
  library call, attribute or element access. The only operators anywhere in the
  notebooks are \<open>*\<close>, \<open>/\<close>, \<open>+\<close>, \<open>-\<close>, \<open>**\<close>, \<open>&\<close>, \<open><\<close> and unary minus.
\<close>

theorem notebooks_authored_arithmetic:
  "map fst (authored reading_data_cells) =
     [[EName ''mask''], [ESubscript (EName ''tbl'') (EConst (CStr ''age''))],
      [ESubscript (EName ''qtbl'') (EConst (CStr ''age''))],
      [ESubscript (EName ''tbl_a'') (EConst (CStr ''ra''))],
      [ESubscript (EName ''tbl_a'') (EConst (CStr ''dec''))],
      [ESubscript (EName ''tbl_b'') (EConst (CStr ''time''))]]
   \<and> map fst (authored photutils_cells) =
     [[EName ''unit''], [EName ''snr''], [EName ''abmag''], [EName ''radius''],
      [EName ''radius''], [ESubscript (EName ''phot'') (EConst (CStr ''annulus_mean''))],
      [ESubscript (EName ''phot'') (EConst (CStr ''aperture_bkg''))],
      [EName ''flux_bkgsub''], [EName ''threshold''], [EName ''sigma'']]
   \<and> length (assignments reading_data_cells) + length (assignments photutils_cells) = 123
   \<and> list_all (\<lambda>a. direct (snd a))
        (filter (\<lambda>a. a \<notin> set (authored reading_data_cells)) (assignments reading_data_cells))
   \<and> list_all (\<lambda>a. direct (snd a))
        (filter (\<lambda>a. a \<notin> set (authored photutils_cells)) (assignments photutils_cells))
   \<and> set (concat (map operators (all_exprs notebooks))) =
       {Binary BMult, Binary BDiv, Binary BAdd, Binary BSub, Binary BPow, Binary BBitAnd,
        Comparison CmpLt, Unary USub}
   \<and> constructs reading_data_cells = [] \<and> constructs photutils_cells = []
   \<and> concat (map defined_names (all_stmts notebooks)) = []"
proof -
  have rest: "list_all (\<lambda>a. direct (snd a)) (filter (\<lambda>a. a \<notin> set (authored nb)) (assignments nb))"
    for nb
    by (auto simp: authored_def list_all_iff)
  have ops: "set (concat (map operators (all_exprs notebooks))) =
       {Binary BMult, Binary BDiv, Binary BAdd, Binary BSub, Binary BPow, Binary BBitAnd,
        Comparison CmpLt, Unary USub}"
    using arg_cong [OF notebooks_operators, of set] by auto
  show ?thesis
    using rest [of reading_data_cells] rest [of photutils_cells] ops
    by (simp add: reading_data_authored photutils_authored assignment_counts
        reading_data_no_constructs photutils_no_constructs nothing_defined)
qed

subsection \<open>What the notebooks leave to the libraries\<close>

text \<open>
  Claims C3, C6, C7 and C8 are about what the libraries do: that assigning a column of
  the wrong length raises and leaves the table as it was, that a table written as
  ECSV reads back equal, that \<open>aperture_photometry\<close> does not look at masked pixels,
  and that it ignores \<open>subpixels\<close> for the methods \<open>exact\<close> and \<open>center\<close>. The
  notebooks hold the calls (and, for the first, one commented-out line) and nothing
  that decides any of these, so they are not stated here.
\<close>

end
